theory Spec2Isabelle
  imports Complex_Main
begin

section \<open>Values received from clients\<close>

text \<open>
  The server in \<^verbatim>\<open>src/backend/index.js\<close> reads every inbound WebSocket message with
  \<^verbatim>\<open>JSON.parse\<close>. A parsed message is one of the six kinds of JSON value. A number is the
  double that \<^verbatim>\<open>JSON.parse\<close> produced: a finite one, or an infinity when the literal is
  beyond the range of doubles (\<^verbatim>\<open>1e999\<close>); it is never NaN. An object is the list of its
  own properties, read with \<open>map_of\<close>. Strings are lists of characters.
\<close>

datatype jsnumber = Finite real | Infinity | NegInfinity

datatype json =
    JNull
  | JBool bool
  | JNumber jsnumber
  | JString string
  | JArray "json list"
  | JObject "(string \<times> json) list"

text \<open>
  What \<^verbatim>\<open>JSON.parse(message)\<close> makes of the message text: it throws (\<open>NotJSON\<close>; a
  SyntaxError, which the \<^verbatim>\<open>catch\<close> of line 60 takes as it takes any exception) or returns
  a value.
\<close>

datatype payload = NotJSON | Parsed json

datatype error = TypeError | RangeError

text \<open>
  What the handlers take from the runtime. \<open>Number_toString\<close> is the decimal text of a
  finite number. The three depths say how far the recursive built-ins can descend
  before the call stack overflows: \<open>join_depth\<close> is the number of nested arrays
  \<^verbatim>\<open>Array.prototype.join\<close> converts, \<open>update_depth\<close> the nesting of a value of a request
  that \<^verbatim>\<open>JSON.stringify\<close> of line 79 writes, \<open>init_depth\<close> the nesting of a value in the
  grid that \<^verbatim>\<open>JSON.stringify\<close> of line 50 writes. A value that is no array and no object
  has nesting 0, so a message whose values are strings is written by every runtime.
\<close>

record runtime =
  Number_toString :: "real \<Rightarrow> string"
  join_depth :: nat
  update_depth :: nat
  init_depth :: nat

text \<open>JavaScript's ToBoolean on a parsed value.\<close>

fun truthy :: "json \<Rightarrow> bool" where
  "truthy JNull = False"
| "truthy (JBool b) = b"
| "truthy (JNumber n) = (n \<noteq> Finite 0)"
| "truthy (JString s) = (s \<noteq> [])"
| "truthy (JArray xs) = True"
| "truthy (JObject ps) = True"

text \<open>
  The value of \<^verbatim>\<open>data.key && data.color && data.username\<close> depends on the truthiness of
  a property that may be missing: a missing property reads as \<^verbatim>\<open>undefined\<close>, which is
  falsy.
\<close>

fun truthy_prop :: "json option \<Rightarrow> bool" where
  "truthy_prop None = False"
| "truthy_prop (Some v) = truthy v"

fun number_text :: "runtime \<Rightarrow> jsnumber \<Rightarrow> string" where
  "number_text rt (Finite r) = Number_toString rt r"
| "number_text rt Infinity = ''Infinity''"
| "number_text rt NegInfinity = ''-Infinity''"

text \<open>
  JavaScript's ToString, applied by the handler to \<^verbatim>\<open>data.key\<close> when it is used as a
  property key and to \<^verbatim>\<open>data.key\<close> and \<^verbatim>\<open>data.username\<close> in the log line's template
  literal. An array is joined with commas, \<^verbatim>\<open>null\<close> elements giving the empty text; the
  join calls itself on an array among the elements, and with \<open>d\<close> levels of stack left
  an array at level \<open>d\<close> throws a RangeError. A parsed object has
  \<^verbatim>\<open>Object.prototype.toString\<close> unless it has an own property named \<^verbatim>\<open>toString\<close>, which is
  never callable; then the conversion throws a TypeError. The elements are converted
  from left to right and the first exception ends the conversion.
\<close>

fun ToString_at :: "runtime \<Rightarrow> nat \<Rightarrow> json \<Rightarrow> error + string"
  and join_at :: "runtime \<Rightarrow> nat \<Rightarrow> json list \<Rightarrow> error + string"
where
  "ToString_at rt d JNull = Inr ''null''"
| "ToString_at rt d (JBool b) = Inr (if b then ''true'' else ''false'')"
| "ToString_at rt d (JNumber n) = Inr (number_text rt n)"
| "ToString_at rt d (JString s) = Inr s"
| "ToString_at rt 0 (JArray xs) = Inl RangeError"
| "ToString_at rt (Suc d) (JArray xs) = join_at rt d xs"
| "ToString_at rt d (JObject ps) =
     (if ''toString'' \<in> set (map fst ps) then Inl TypeError else Inr ''[object Object]'')"
| "join_at rt d [] = Inr ''''"
| "join_at rt d [x] = (if x = JNull then Inr '''' else ToString_at rt d x)"
| "join_at rt d (x # y # ys) =
     (case (if x = JNull then Inr '''' else ToString_at rt d x) of
        Inl e \<Rightarrow> Inl e
      | Inr s \<Rightarrow> (case join_at rt d (y # ys) of Inl e \<Rightarrow> Inl e | Inr t \<Rightarrow> Inr (s @ '','' @ t)))"

definition ToString :: "runtime \<Rightarrow> json \<Rightarrow> error + string" where
  "ToString rt v = ToString_at rt (join_depth rt) v"

text \<open>
  Reading a property of the parsed message once it is known not to be \<^verbatim>\<open>null\<close> (reading a
  property of \<^verbatim>\<open>null\<close> throws; \<open>on_message\<close> tests for that first). The handler reads only
  \<^verbatim>\<open>type\<close>, \<^verbatim>\<open>key\<close>, \<^verbatim>\<open>color\<close> and \<^verbatim>\<open>username\<close>. No built-in prototype (of objects,
  arrays, strings, numbers, booleans) defines any of these names, so the read gives the
  own property of an object and \<^verbatim>\<open>undefined\<close> (\<open>None\<close>) otherwise.
\<close>

fun read_prop :: "json \<Rightarrow> string \<Rightarrow> json option" where
  "read_prop (JObject ps) name = map_of ps name"
| "read_prop v name = None"

text \<open>
  The test of line 66,
  \<^verbatim>\<open>data.type === "colorCell" && data.key && data.color && data.username\<close>,
  returning the three values the branch then uses.
\<close>

definition colorCell_fields :: "json \<Rightarrow> (json \<times> json \<times> json) option" where
  "colorCell_fields data =
     (if read_prop data ''type'' = Some (JString ''colorCell'')
         \<and> truthy_prop (read_prop data ''key'')
         \<and> truthy_prop (read_prop data ''color'')
         \<and> truthy_prop (read_prop data ''username'')
      then (case (read_prop data ''key'', read_prop data ''color'', read_prop data ''username'') of
              (Some k, Some c, Some u) \<Rightarrow> Some (k, c, u)
            | _ \<Rightarrow> None)
      else None)"

section \<open>The grid\<close>

text \<open>
  \<^verbatim>\<open>let gridState = {}\<close>: a plain object. Its own properties are the placed cells, each
  an object \<^verbatim>\<open>{ color, username }\<close> holding the two values of the request as received.
\<close>

record occupant =
  color :: json
  username :: json

type_synonym grid = "string \<rightharpoonup> occupant"

text \<open>
  A plain object inherits from \<^verbatim>\<open>Object.prototype\<close>, whose property names in Node.js are
  these twelve. The handler never assigns to any of them (see \<open>on_message\<close>), so the
  prototype of \<^verbatim>\<open>gridState\<close> stays as it is.
\<close>

definition Object_prototype_names :: "string list" where
  "Object_prototype_names =
     [''constructor'', ''__defineGetter__'', ''__defineSetter__'', ''hasOwnProperty'',
      ''__lookupGetter__'', ''__lookupSetter__'', ''isPrototypeOf'',
      ''propertyIsEnumerable'', ''toString'', ''valueOf'', ''__proto__'',
      ''toLocaleString'']"

text \<open>
  What \<^verbatim>\<open>gridState[k]\<close> evaluates to: the own property when there is one, else the
  inherited property (a built-in function, or for \<^verbatim>\<open>__proto__\<close> the prototype object),
  else \<^verbatim>\<open>undefined\<close>. Only \<^verbatim>\<open>undefined\<close> is falsy.
\<close>

datatype cell = Undefined | Inherited | Own occupant

definition grid_get :: "grid \<Rightarrow> string \<Rightarrow> cell" where
  "grid_get g k =
     (case g k of
        Some occ \<Rightarrow> Own occ
      | None \<Rightarrow> if k \<in> set Object_prototype_names then Inherited else Undefined)"

fun cell_truthy :: "cell \<Rightarrow> bool" where
  "cell_truthy Undefined = False"
| "cell_truthy Inherited = True"
| "cell_truthy (Own occ) = True"

section \<open>Messages to clients\<close>

text \<open>
  The two objects the handlers hand to \<^verbatim>\<open>JSON.stringify\<close>: \<open>Init g\<close> is
  \<^verbatim>\<open>{ type: "init", grid: gridState }\<close> with \<open>g\<close> the own properties of the grid, and
  \<open>CellUpdate k c u\<close> is \<^verbatim>\<open>{ type: "cellUpdate", key: k, color: c, username: u }\<close>.
\<close>

datatype message = Init grid | CellUpdate json json json

text \<open>
  The JSON text that is sent, written as the message a client reads from it with
  \<^verbatim>\<open>JSON.parse\<close>.
\<close>

datatype json_text = Text message

text \<open>
  The nesting of a value: the number of arrays and objects around its innermost part.
\<close>

fun depth :: "json \<Rightarrow> nat"
  and depth_elements :: "json list \<Rightarrow> nat"
  and depth_properties :: "(string \<times> json) list \<Rightarrow> nat"
where
  "depth (JArray xs) = Suc (depth_elements xs)"
| "depth (JObject ps) = Suc (depth_properties ps)"
| "depth JNull = 0"
| "depth (JBool b) = 0"
| "depth (JNumber n) = 0"
| "depth (JString s) = 0"
| "depth_elements [] = 0"
| "depth_elements (x # xs) = max (depth x) (depth_elements xs)"
| "depth_properties [] = 0"
| "depth_properties (p # ps) = max (depth (snd p)) (depth_properties ps)"

text \<open>
  What a client reads back from the text \<^verbatim>\<open>JSON.stringify\<close> writes for a value: the value
  itself, but for the infinities, which are written as \<^verbatim>\<open>null\<close>. (A parsed value holds no
  function, no \<^verbatim>\<open>undefined\<close> and no cycle, and its own property \<^verbatim>\<open>toJSON\<close>, if any, is not
  callable.)
\<close>

fun wire :: "json \<Rightarrow> json"
  and wire_elements :: "json list \<Rightarrow> json list"
  and wire_properties :: "(string \<times> json) list \<Rightarrow> (string \<times> json) list"
where
  "wire JNull = JNull"
| "wire (JBool b) = JBool b"
| "wire (JNumber (Finite r)) = JNumber (Finite r)"
| "wire (JNumber Infinity) = JNull"
| "wire (JNumber NegInfinity) = JNull"
| "wire (JString s) = JString s"
| "wire (JArray xs) = JArray (wire_elements xs)"
| "wire (JObject ps) = JObject (wire_properties ps)"
| "wire_elements [] = []"
| "wire_elements (x # xs) = wire x # wire_elements xs"
| "wire_properties [] = []"
| "wire_properties (p # ps) = (fst p, wire (snd p)) # wire_properties ps"

definition wire_grid :: "grid \<Rightarrow> grid" where
  "wire_grid g =
     (\<lambda>k. case g k of
            None \<Rightarrow> None
          | Some occ \<Rightarrow> Some \<lparr>color = wire (color occ), username = wire (username occ)\<rparr>)"

text \<open>Whether every value in the grid has nesting at most \<open>d\<close>.\<close>

definition grid_within :: "nat \<Rightarrow> grid \<Rightarrow> bool" where
  "grid_within d g \<longleftrightarrow>
     \<not> (\<exists>k occ. g k = Some occ \<and> (d < depth (color occ) \<or> d < depth (username occ)))"

text \<open>
  \<^verbatim>\<open>JSON.stringify\<close> of a message, at line 50 or at line 79. It descends into the values
  and throws a RangeError when the call stack overflows; otherwise it returns the text.
\<close>

fun JSON_stringify :: "runtime \<Rightarrow> message \<Rightarrow> error + json_text" where
  "JSON_stringify rt (Init g) =
     (if grid_within (init_depth rt) g then Inr (Text (Init (wire_grid g)))
      else Inl RangeError)"
| "JSON_stringify rt (CellUpdate key c u) =
     (if depth key \<le> update_depth rt \<and> depth c \<le> update_depth rt \<and> depth u \<le> update_depth rt
      then Inr (Text (CellUpdate (wire key) (wire c) (wire u)))
      else Inl RangeError)"

section \<open>The server\<close>

text \<open>
  Connections are numbered in the order in which they are accepted. The state of the
  process is the grid, the set \<^verbatim>\<open>wss.clients\<close> in insertion order, each connection's
  \<^verbatim>\<open>readyState\<close>, and for each connection the texts passed to its \<^verbatim>\<open>send\<close>, oldest first.
\<close>

type_synonym conn = nat

datatype ready_state = CONNECTING | OPEN | CLOSING | CLOSED

record server =
  gridState :: grid
  clients :: "conn list"
  readyState :: "conn \<Rightarrow> ready_state"
  sent :: "conn \<Rightarrow> json_text list"
  next_conn :: conn

definition initial :: server where
  "initial = \<lparr>gridState = Map.empty, clients = [], readyState = (\<lambda>c. CONNECTING),
              sent = (\<lambda>c. []), next_conn = 0\<rparr>"

text \<open>
  \<^verbatim>\<open>client.send(text)\<close> on an open connection. Both calls in the source are made on an
  open connection: line 50 in the \<^verbatim>\<open>connection\<close> event, line 79 under the test of
  line 78.
\<close>

definition send :: "conn \<Rightarrow> json_text \<Rightarrow> server \<Rightarrow> server" where
  "send client t st = st\<lparr>sent := (sent st)(client := sent st client @ [t])\<rparr>"

text \<open>
  A handler either returns or throws; in both cases the state it leaves is kept, since
  a throw at line 79 or at line 88 comes after the grid was written.
\<close>

datatype outcome = Returned server | Threw error server

fun state_of :: "outcome \<Rightarrow> server" where
  "state_of (Returned st) = st"
| "state_of (Threw e st) = st"

text \<open>
  Lines 77 to 86: \<^verbatim>\<open>wss.clients.forEach(client => { if (client.readyState === ws.OPEN)
  client.send(JSON.stringify(...)) })\<close>. The text is written anew for every open
  connection, and an exception of \<^verbatim>\<open>JSON.stringify\<close> ends the loop.
\<close>

fun broadcast :: "runtime \<Rightarrow> message \<Rightarrow> conn list \<Rightarrow> server \<Rightarrow> outcome" where
  "broadcast rt m [] st = Returned st"
| "broadcast rt m (client # rest) st =
     (if readyState st client = OPEN
      then (case JSON_stringify rt m of
              Inl e \<Rightarrow> Threw e st
            | Inr t \<Rightarrow> broadcast rt m rest (send client t st))
      else broadcast rt m rest st)"

text \<open>
  The \<^verbatim>\<open>message\<close> handler, lines 56 to 95. An exception of \<^verbatim>\<open>JSON.parse\<close> is caught and
  the handler returns. \<^verbatim>\<open>data.type\<close> throws on \<^verbatim>\<open>null\<close>. \<^verbatim>\<open>gridState[data.key]\<close>
  converts the key to a string, which may throw. The assignment of line 70 is reached
  only when the key names neither an own nor an inherited property, so it adds an own
  property. Then comes the loop of lines 77 to 86, which may throw. The log line 88
  converts \<^verbatim>\<open>data.key\<close> (which succeeded at line 68) and \<^verbatim>\<open>data.username\<close> to strings; the
  second may throw. No exception but that of \<^verbatim>\<open>JSON.parse\<close> is caught. Console output is
  not modelled.
\<close>

definition on_message :: "runtime \<Rightarrow> server \<Rightarrow> payload \<Rightarrow> outcome" where
  "on_message rt st message =
     (case message of
        NotJSON \<Rightarrow> Returned st
      | Parsed data \<Rightarrow>
          if data = JNull then Threw TypeError st
          else (case colorCell_fields data of
                  None \<Rightarrow> Returned st
                | Some (key, c, u) \<Rightarrow>
                    (case ToString rt key of
                       Inl e \<Rightarrow> Threw e st
                     | Inr k \<Rightarrow>
                         if \<not> cell_truthy (grid_get (gridState st) k)
                         then let st1 = st\<lparr>gridState := (gridState st)(k \<mapsto> \<lparr>color = c, username = u\<rparr>)\<rparr>
                              in (case broadcast rt (CellUpdate key c u) (clients st1) st1 of
                                    Threw e st2 \<Rightarrow> Threw e st2
                                  | Returned st2 \<Rightarrow>
                                      (case ToString rt u of
                                         Inl e \<Rightarrow> Threw e st2
                                       | Inr t \<Rightarrow> Returned st2))
                         else Returned st)))"

text \<open>
  The \<^verbatim>\<open>connection\<close> handler, lines 45 to 50, for the new connection \<open>ws\<close>: it writes the
  snapshot, which may throw, and sends it. (It then installs the two other handlers.)
\<close>

definition on_connection :: "runtime \<Rightarrow> server \<Rightarrow> conn \<Rightarrow> outcome" where
  "on_connection rt st ws =
     (case JSON_stringify rt (Init (gridState st)) of
        Inl e \<Rightarrow> Threw e st
      | Inr t \<Rightarrow> Returned (send ws t st))"

text \<open>
  What the \<^verbatim>\<open>ws\<close> library does around the handlers. A completed handshake creates the
  connection in state OPEN and adds it to \<^verbatim>\<open>wss.clients\<close> before the \<^verbatim>\<open>connection\<close> event.
  A connection that starts to close leaves OPEN for CLOSING and stays in
  \<^verbatim>\<open>wss.clients\<close>. The \<^verbatim>\<open>close\<close> event finds it CLOSED and removed from \<^verbatim>\<open>wss.clients\<close>;
  the handler of lines 101 to 104 only logs.
\<close>

datatype event =
    Connection
  | Message conn payload
  | Closing conn
  | Close conn

definition accept :: "server \<Rightarrow> server" where
  "accept st =
     st\<lparr>clients := clients st @ [next_conn st],
        readyState := (readyState st)(next_conn st := OPEN),
        next_conn := Suc (next_conn st)\<rparr>"

definition step :: "runtime \<Rightarrow> server \<Rightarrow> event \<Rightarrow> outcome" where
  "step rt st ev =
     (case ev of
        Connection \<Rightarrow> on_connection rt (accept st) (next_conn st)
      | Message sender message \<Rightarrow> on_message rt st message
      | Closing c \<Rightarrow>
          Returned (if readyState st c = OPEN
                    then st\<lparr>readyState := (readyState st)(c := CLOSING)\<rparr> else st)
      | Close c \<Rightarrow>
          Returned (st\<lparr>clients := removeAll c (clients st),
                       readyState := (readyState st)(c := CLOSED)\<rparr>))"

text \<open>
  A run of the process: events are handled one at a time, each handler to its end (none
  of them awaits). An uncaught exception ends the run.
\<close>

fun run :: "runtime \<Rightarrow> server \<Rightarrow> event list \<Rightarrow> outcome" where
  "run rt st [] = Returned st"
| "run rt st (ev # evs) =
     (case step rt st ev of
        Returned st' \<Rightarrow> run rt st' evs
      | Threw e st' \<Rightarrow> Threw e st')"

section \<open>Notions used to state the properties\<close>

text \<open>
  The parsed form of the placement request
  \<^verbatim>\<open>{ type: "colorCell", key: k, color: c, username: u }\<close>.
\<close>

definition colorCell :: "json \<Rightarrow> json \<Rightarrow> json \<Rightarrow> json" where
  "colorCell k c u =
     JObject [(''type'', JString ''colorCell''), (''key'', k), (''color'', c), (''username'', u)]"

text \<open>
  The state the accepting branch leaves after lines 69 to 86, whether the loop went
  through or threw.
\<close>

definition place :: "runtime \<Rightarrow> server \<Rightarrow> json \<Rightarrow> json \<Rightarrow> json \<Rightarrow> string \<Rightarrow> server" where
  "place rt st key c u k =
     state_of (broadcast rt (CellUpdate key c u) (clients st)
       (st\<lparr>gridState := (gridState st)(k \<mapsto> \<lparr>color = c, username = u\<rparr>)\<rparr>))"

text \<open>
  What holds of \<^verbatim>\<open>wss.clients\<close> in every state the process reaches: it is a set, it
  holds only connections that were accepted, every open connection is in it, and a
  connection not yet accepted is not open and was sent nothing.
\<close>

definition wf :: "server \<Rightarrow> bool" where
  "wf st \<longleftrightarrow>
     distinct (clients st)
     \<and> (\<forall>c. c \<in> set (clients st) \<longrightarrow> c < next_conn st)
     \<and> (\<forall>c. readyState st c = OPEN \<longrightarrow> c \<in> set (clients st))
     \<and> (\<forall>c. next_conn st \<le> c \<longrightarrow> sent st c = [] \<and> readyState st c \<noteq> OPEN)"

text \<open>
  An event accepts a placement for the cell \<open>k\<close> when \<open>k\<close> has no entry in the grid
  before it and has one after it. \<open>acceptances\<close> counts these events along a run, for
  one cell; \<open>placements\<close> counts the events of a run that change the grid at all.
\<close>

definition accepts :: "runtime \<Rightarrow> server \<Rightarrow> event \<Rightarrow> string \<Rightarrow> bool" where
  "accepts rt st ev k \<longleftrightarrow>
     gridState st k = None \<and> gridState (state_of (step rt st ev)) k \<noteq> None"

fun acceptances :: "runtime \<Rightarrow> server \<Rightarrow> event list \<Rightarrow> string \<Rightarrow> nat" where
  "acceptances rt st [] k = 0"
| "acceptances rt st (ev # evs) k =
     (if accepts rt st ev k then 1 else 0)
     + (case step rt st ev of
          Returned st' \<Rightarrow> acceptances rt st' evs k
        | Threw e st' \<Rightarrow> 0)"

fun placements :: "runtime \<Rightarrow> server \<Rightarrow> event list \<Rightarrow> nat" where
  "placements rt st [] = 0"
| "placements rt st (ev # evs) =
     (if gridState (state_of (step rt st ev)) \<noteq> gridState st then 1 else 0)
     + (case step rt st ev of
          Returned st' \<Rightarrow> placements rt st' evs
        | Threw e st' \<Rightarrow> 0)"

text \<open>Counting the snapshots among the texts sent to a connection.\<close>

fun is_init :: "json_text \<Rightarrow> bool" where
  "is_init (Text (Init g)) = True"
| "is_init (Text (CellUpdate key c u)) = False"

definition init_count :: "server \<Rightarrow> conn \<Rightarrow> nat" where
  "init_count st c = length (filter is_init (sent st c))"

text \<open>
  A malformed message, in the words of the specification: text that is not JSON, or a
  \<^verbatim>\<open>colorCell\<close> message in which one of \<^verbatim>\<open>key\<close>, \<^verbatim>\<open>color\<close>, \<^verbatim>\<open>username\<close> is missing.
\<close>

definition malformed :: "payload \<Rightarrow> bool" where
  "malformed m =
     (case m of
        NotJSON \<Rightarrow> True
      | Parsed data \<Rightarrow>
          read_prop data ''type'' = Some (JString ''colorCell'')
          \<and> (read_prop data ''key'' = None
               \<or> read_prop data ''color'' = None
               \<or> read_prop data ''username'' = None))"

text \<open>The falsy values a JSON text can carry: the empty string, zero, false and null.\<close>

definition falsy :: "json \<Rightarrow> bool" where
  "falsy v \<longleftrightarrow> v = JString '''' \<or> v = JNumber (Finite 0) \<or> v = JBool False \<or> v = JNull"

text \<open>
  A value that \<^verbatim>\<open>JSON.stringify\<close> writes and a client reads back unchanged, whatever the
  runtime: it has no nesting and is no infinity. Every string is one.
\<close>

definition plain :: "json \<Rightarrow> bool" where
  "plain v \<longleftrightarrow> depth v = 0 \<and> wire v = v"

text \<open>
  A runtime for the examples: its stack holds four levels of nesting in a key and in an
  update and two in a snapshot. No number occurs as a key in the examples, so the text
  of a number plays no part in them.
\<close>

definition example_runtime :: runtime where
  "example_runtime =
     \<lparr>Number_toString = (\<lambda>r. ''0''), join_depth = 4, update_depth = 4, init_depth = 2\<rparr>"

text \<open>Whether every value in the grid is plain.\<close>

definition grid_plain :: "grid \<Rightarrow> bool" where
  "grid_plain g \<longleftrightarrow>
     \<not> (\<exists>k occ. g k = Some occ \<and> \<not> (plain (color occ) \<and> plain (username occ)))"

section \<open>The broadcast and the message handler\<close>

lemma send_fields [simp]:
  "gridState (send c t st) = gridState st"
  "clients (send c t st) = clients st"
  "readyState (send c t st) = readyState st"
  "next_conn (send c t st) = next_conn st"
  by (simp_all add: send_def)

lemma broadcast_gridState [simp]: "gridState (state_of (broadcast rt m cs st)) = gridState st"
  by (induction cs arbitrary: st) (auto split: sum.splits)

lemma broadcast_clients [simp]: "clients (state_of (broadcast rt m cs st)) = clients st"
  by (induction cs arbitrary: st) (auto split: sum.splits)

lemma broadcast_readyState [simp]:
  "readyState (state_of (broadcast rt m cs st)) = readyState st"
  by (induction cs arbitrary: st) (auto split: sum.splits)

lemma broadcast_next_conn [simp]: "next_conn (state_of (broadcast rt m cs st)) = next_conn st"
  by (induction cs arbitrary: st) (auto split: sum.splits)

lemma broadcast_sent_other:
  "c \<notin> set cs \<Longrightarrow> sent (state_of (broadcast rt m cs st)) c = sent st c"
  by (induction cs arbitrary: st) (auto simp: send_def split: sum.splits)

lemma broadcast_returns:
  "JSON_stringify rt m = Inr t \<Longrightarrow>
   broadcast rt m cs st = Returned (state_of (broadcast rt m cs st))"
  by (induction cs arbitrary: st) auto

lemma broadcast_sent:
  "JSON_stringify rt m = Inr t \<Longrightarrow> distinct cs \<Longrightarrow>
   sent (state_of (broadcast rt m cs st)) c =
     (if c \<in> set cs \<and> readyState st c = OPEN then sent st c @ [t] else sent st c)"
proof (induction cs arbitrary: st)
  case Nil
  then show ?case by simp
next
  case (Cons a cs)
  then show ?case
    by (auto simp: send_def broadcast_sent_other)
qed

lemma broadcast_throws:
  "JSON_stringify rt m = Inl e \<Longrightarrow>
   broadcast rt m cs st =
     (if \<exists>c. c \<in> set cs \<and> readyState st c = OPEN then Threw e st else Returned st)"
  by (induction cs arbitrary: st) auto

lemma broadcast_none_open:
  "\<not> (\<exists>c. c \<in> set cs \<and> readyState st c = OPEN) \<Longrightarrow> broadcast rt m cs st = Returned st"
  by (induction cs arbitrary: st) auto

lemma colorCell_fields_not_null: "colorCell_fields data = Some f \<Longrightarrow> data \<noteq> JNull"
  by (auto simp: colorCell_fields_def)

lemma cell_truthy_iff:
  "cell_truthy (grid_get g k) \<longleftrightarrow> g k \<noteq> None \<or> k \<in> set Object_prototype_names"
  by (auto simp: grid_get_def split: option.splits)

lemma on_message_rejected:
  assumes "colorCell_fields data = Some (key, c, u)" and "ToString rt key = Inr k"
    and "gridState st k \<noteq> None \<or> k \<in> set Object_prototype_names"
  shows "on_message rt st (Parsed data) = Returned st"
  using assms colorCell_fields_not_null [OF assms(1)]
  by (simp add: on_message_def cell_truthy_iff)

lemma on_message_accepted:
  assumes "colorCell_fields data = Some (key, c, u)" and "ToString rt key = Inr k"
    and "gridState st k = None" and "k \<notin> set Object_prototype_names"
  shows "state_of (on_message rt st (Parsed data)) = place rt st key c u k"
  using assms colorCell_fields_not_null [OF assms(1)]
  by (simp add: on_message_def cell_truthy_iff place_def Let_def split: sum.splits outcome.splits)

lemma on_message_accepted_returns:
  assumes "colorCell_fields data = Some (key, c, u)" and "ToString rt key = Inr k"
    and "gridState st k = None" and "k \<notin> set Object_prototype_names"
    and "JSON_stringify rt (CellUpdate key c u) = Inr t"
    and "ToString rt u = Inr s"
  shows "on_message rt st (Parsed data) = Returned (place rt st key c u k)"
proof -
  let ?st1 = "st\<lparr>gridState := (gridState st)(k \<mapsto> \<lparr>color = c, username = u\<rparr>)\<rparr>"
  have "broadcast rt (CellUpdate key c u) (clients ?st1) ?st1 = Returned (place rt st key c u k)"
    using broadcast_returns [OF assms(5), of "clients ?st1" ?st1] by (simp add: place_def)
  then show ?thesis
    using assms(1-4,6) colorCell_fields_not_null [OF assms(1)]
    by (simp add: on_message_def cell_truthy_iff Let_def)
qed

lemma on_message_cases:
  obtains (ignored) "state_of (on_message rt st m) = st"
  | (inserted) data key c u k where "m = Parsed data" "colorCell_fields data = Some (key, c, u)"
      "ToString rt key = Inr k" "gridState st k = None" "k \<notin> set Object_prototype_names"
      "state_of (on_message rt st m) = place rt st key c u k"
proof (cases m)
  case NotJSON
  then show ?thesis using ignored by (simp add: on_message_def)
next
  case (Parsed data)
  show ?thesis
  proof (cases "colorCell_fields data")
    case None
    then show ?thesis using ignored Parsed by (simp add: on_message_def)
  next
    case (Some f)
    obtain key c u where f: "f = (key, c, u)" by (cases f)
    show ?thesis
    proof (cases "ToString rt key")
      case (Inl e)
      then show ?thesis using ignored Parsed Some f by (simp add: on_message_def)
    next
      case (Inr k)
      show ?thesis
      proof (cases "gridState st k \<noteq> None \<or> k \<in> set Object_prototype_names")
        case True
        then show ?thesis
          using ignored on_message_rejected [of data key c u rt k st] Parsed Some f Inr by simp
      next
        case False
        then show ?thesis
          using inserted [of data key c u k] on_message_accepted [of data key c u rt k st]
            Parsed Some f Inr by simp
      qed
    qed
  qed
qed

section \<open>What every event preserves\<close>

lemma place_simps [simp]:
  "gridState (place rt st key c u k) = (gridState st)(k \<mapsto> \<lparr>color = c, username = u\<rparr>)"
  "clients (place rt st key c u k) = clients st"
  "readyState (place rt st key c u k) = readyState st"
  "next_conn (place rt st key c u k) = next_conn st"
  by (simp_all add: place_def)

lemma place_sent:
  "JSON_stringify rt (CellUpdate key c u) = Inr t \<Longrightarrow> distinct (clients st) \<Longrightarrow>
   sent (place rt st key c u k) conn =
     (if conn \<in> set (clients st) \<and> readyState st conn = OPEN
      then sent st conn @ [t] else sent st conn)"
  by (simp add: place_def broadcast_sent)

lemma place_sent_thrown:
  "JSON_stringify rt (CellUpdate key c u) = Inl e \<Longrightarrow> sent (place rt st key c u k) = sent st"
  by (simp add: place_def broadcast_throws)

lemma place_sent_outside:
  "conn \<notin> set (clients st) \<Longrightarrow> sent (place rt st key c u k) conn = sent st conn"
  by (simp add: place_def broadcast_sent_other)

lemma step_cases:
  obtains (same) "gridState (state_of (step rt st ev)) = gridState st"
  | (placed) sender data key c u k where "ev = Message sender (Parsed data)"
      "colorCell_fields data = Some (key, c, u)"
      "ToString rt key = Inr k" "gridState st k = None" "k \<notin> set Object_prototype_names"
      "state_of (step rt st ev) = place rt st key c u k"
proof (cases ev)
  case Connection
  then show ?thesis using same
    by (simp add: step_def on_connection_def accept_def split: sum.splits)
next
  case (Message sender m)
  show ?thesis
  proof (cases rule: on_message_cases [of rt st m])
    case ignored
    then show ?thesis using same Message by (simp add: step_def)
  next
    case (inserted data key c u k)
    then show ?thesis using placed [of sender data key c u k] Message by (simp add: step_def)
  qed
next
  case (Closing c)
  then show ?thesis using same by (simp add: step_def)
next
  case (Close c)
  then show ?thesis using same by (simp add: step_def)
qed

lemma step_keeps_entry:
  "gridState st k = Some occ \<Longrightarrow> gridState (state_of (step rt st ev)) k = Some occ"
  by (cases rule: step_cases [of rt st ev]) auto

lemma run_keeps_entry:
  "gridState st k = Some occ \<Longrightarrow> gridState (state_of (run rt st evs)) k = Some occ"
proof (induction evs arbitrary: st)
  case Nil
  then show ?case by simp
next
  case (Cons ev evs)
  show ?case
  proof (cases "step rt st ev")
    case (Returned st')
    then have "gridState st' k = Some occ"
      using step_keeps_entry [OF Cons.prems, of rt ev] by simp
    then show ?thesis using Cons.IH Returned by simp
  next
    case (Threw e st')
    then show ?thesis using step_keeps_entry [OF Cons.prems, of rt ev] by simp
  qed
qed

lemma step_no_inherited:
  "k \<in> set Object_prototype_names \<Longrightarrow> gridState st k = None \<Longrightarrow>
   gridState (state_of (step rt st ev)) k = None"
  by (cases rule: step_cases [of rt st ev]) auto

lemma run_no_inherited:
  "k \<in> set Object_prototype_names \<Longrightarrow> gridState st k = None \<Longrightarrow>
   gridState (state_of (run rt st evs)) k = None"
proof (induction evs arbitrary: st)
  case Nil
  then show ?case by simp
next
  case (Cons ev evs)
  show ?case
  proof (cases "step rt st ev")
    case (Returned st')
    then have "gridState st' k = None"
      using step_no_inherited [OF Cons.prems, of rt ev] by simp
    then show ?thesis using Cons.IH Cons.prems(1) Returned by simp
  next
    case (Threw e st')
    then show ?thesis using step_no_inherited [OF Cons.prems, of rt ev] by simp
  qed
qed

lemma acceptances_zero:
  "gridState st k \<noteq> None \<Longrightarrow> acceptances rt st evs k = 0"
proof (induction evs arbitrary: st)
  case Nil
  then show ?case by simp
next
  case (Cons ev evs)
  from Cons.prems obtain occ where occ: "gridState st k = Some occ" by auto
  have "\<not> accepts rt st ev k" using occ by (simp add: accepts_def)
  moreover have "acceptances rt st' evs k = 0" if "step rt st ev = Returned st'" for st'
    using step_keeps_entry [OF occ, of rt ev] that Cons.IH [of st'] by simp
  ultimately show ?case by (simp split: outcome.splits)
qed

lemma acceptances_le_1: "acceptances rt st evs k \<le> 1"
proof (induction evs arbitrary: st)
  case Nil
  then show ?case by simp
next
  case (Cons ev evs)
  show ?case
  proof (cases "accepts rt st ev k")
    case True
    then have "gridState (state_of (step rt st ev)) k \<noteq> None" by (simp add: accepts_def)
    then have "acceptances rt st' evs k = 0" if "step rt st ev = Returned st'" for st'
      using that acceptances_zero [of st' k rt evs] by simp
    then show ?thesis using True by (simp split: outcome.splits)
  next
    case False
    then show ?thesis using Cons.IH by (simp split: outcome.splits)
  qed
qed

lemma wf_initial: "wf initial"
  by (simp add: wf_def initial_def)

lemma wf_step: "wf st \<Longrightarrow> wf (state_of (step rt st ev))"
proof (cases ev)
  case Connection
  assume "wf st"
  then show ?thesis using Connection
    by (auto simp: wf_def step_def on_connection_def accept_def send_def split: sum.splits)
next
  case (Message sender m)
  assume w: "wf st"
  show ?thesis
  proof (cases rule: on_message_cases [of rt st m])
    case ignored
    then show ?thesis using w Message by (simp add: step_def)
  next
    case (inserted data key c u k)
    have "sent (place rt st key c u k) conn = []" if "next_conn st \<le> conn" for conn
    proof -
      from that w have "conn \<notin> set (clients st)" by (auto simp: wf_def)
      then show ?thesis using place_sent_outside that w by (simp add: wf_def)
    qed
    then show ?thesis using w Message inserted by (simp add: step_def wf_def)
  qed
next
  case (Closing c)
  assume "wf st"
  then show ?thesis using Closing by (auto simp: wf_def step_def)
next
  case (Close c)
  assume "wf st"
  then show ?thesis using Close by (auto simp: wf_def step_def distinct_removeAll)
qed

lemma next_conn_step:
  "next_conn (state_of (step rt st ev)) =
     (if ev = Connection then Suc (next_conn st) else next_conn st)"
proof (cases ev)
  case Connection
  then show ?thesis by (simp add: step_def on_connection_def accept_def split: sum.splits)
next
  case (Message sender m)
  then show ?thesis
    by (cases rule: on_message_cases [of rt st m]) (simp_all add: step_def)
next
  case (Closing c)
  then show ?thesis by (simp add: step_def)
next
  case (Close c)
  then show ?thesis by (simp add: step_def)
qed

lemma wf_run: "wf st \<Longrightarrow> wf (state_of (run rt st evs))"
proof (induction evs arbitrary: st)
  case Nil
  then show ?case by simp
next
  case (Cons ev evs)
  show ?case
  proof (cases "step rt st ev")
    case (Returned st')
    then have "wf st'" using wf_step [OF Cons.prems, of rt ev] by simp
    then show ?thesis using Cons.IH Returned by simp
  next
    case (Threw e st')
    then show ?thesis using wf_step [OF Cons.prems, of rt ev] by simp
  qed
qed

lemma wf_reachable: "run rt initial evs = Returned st \<Longrightarrow> wf st"
  using wf_run [OF wf_initial, of rt evs] by simp

lemma run_append:
  "run rt st (xs @ ys) =
     (case run rt st xs of Returned st' \<Rightarrow> run rt st' ys | Threw e st' \<Rightarrow> Threw e st')"
  by (induction xs arbitrary: st) (auto split: outcome.splits)

lemma next_conn_run_mono: "next_conn st \<le> next_conn (state_of (run rt st evs))"
proof (induction evs arbitrary: st)
  case Nil
  then show ?case by simp
next
  case (Cons ev evs)
  have s: "next_conn st \<le> next_conn (state_of (step rt st ev))"
    by (simp add: next_conn_step)
  show ?case
  proof (cases "step rt st ev")
    case (Returned st')
    then show ?thesis using Cons.IH [of st'] s by simp
  next
    case (Threw e st')
    then show ?thesis using s by simp
  qed
qed

section \<open>Acceptance, snapshots and placements\<close>

lemma accepts_placed:
  assumes "gridState st k' = None" and "state_of (step rt st ev) = place rt st key c u k'"
  shows "accepts rt st ev k \<longleftrightarrow> k = k'"
  using assms by (auto simp: accepts_def)

lemma accepts_same:
  assumes "gridState (state_of (step rt st ev)) = gridState st"
  shows "\<not> accepts rt st ev k"
  using assms by (auto simp: accepts_def)

lemma accepts_message:
  assumes "colorCell_fields data = Some (key, c, u)"
    and "accepts rt st (Message sender (Parsed data)) k"
  shows "ToString rt key = Inr k
         \<and> state_of (step rt st (Message sender (Parsed data))) = place rt st key c u k"
proof (cases rule: step_cases [of rt st "Message sender (Parsed data)"])
  case same
  then show ?thesis using assms(2) accepts_same by blast
next
  case (placed sender' data' key' c' u' k')
  then have "k = k'" using assms(2) accepts_placed [of st k' rt _ key' c' u' k] by simp
  then show ?thesis using placed assms(1) by simp
qed

lemma place_init_count:
  assumes "distinct (clients st)"
  shows "init_count (place rt st key c u k) conn = init_count st conn"
proof (cases "JSON_stringify rt (CellUpdate key c u)")
  case (Inl e)
  then show ?thesis by (simp add: init_count_def place_sent_thrown)
next
  case (Inr t)
  then have "\<not> is_init t" by (auto split: if_splits)
  then show ?thesis using place_sent [OF Inr assms] by (simp add: init_count_def)
qed

lemma init_count_step_old:
  assumes "wf st" and "conn \<noteq> next_conn st \<or> ev \<noteq> Connection"
  shows "init_count (state_of (step rt st ev)) conn = init_count st conn"
proof (cases ev)
  case Connection
  then show ?thesis using assms(2)
    by (auto simp: init_count_def step_def on_connection_def accept_def send_def split: sum.splits)
next
  case (Message sender m)
  show ?thesis
  proof (cases rule: on_message_cases [of rt st m])
    case ignored
    then show ?thesis using Message by (simp add: step_def)
  next
    case (inserted data key c u k)
    then show ?thesis using Message assms(1) place_init_count [of st rt key c u k conn]
      by (simp add: step_def wf_def)
  qed
next
  case (Closing c)
  then show ?thesis by (auto simp: init_count_def step_def)
next
  case (Close c)
  then show ?thesis by (auto simp: init_count_def step_def)
qed

lemma init_count_run_old:
  assumes "wf st" and "conn < next_conn st"
  shows "init_count (state_of (run rt st evs)) conn = init_count st conn"
  using assms
proof (induction evs arbitrary: st)
  case Nil
  then show ?case by simp
next
  case (Cons ev evs)
  let ?st' = "state_of (step rt st ev)"
  have w: "wf ?st'" using wf_step [OF Cons.prems(1)] .
  have n: "conn < next_conn ?st'" using Cons.prems(2) by (simp add: next_conn_step)
  have i: "init_count ?st' conn = init_count st conn"
    using init_count_step_old [OF Cons.prems(1), of conn ev rt] Cons.prems(2) by simp
  show ?case
  proof (cases "step rt st ev")
    case (Returned st')
    then show ?thesis using Cons.IH [of st'] w n i by simp
  next
    case (Threw e st')
    then show ?thesis using i by simp
  qed
qed

lemma init_count_step_returned:
  assumes "wf st" and "\<forall>c. init_count st c = (if c < next_conn st then 1 else 0)"
    and "step rt st ev = Returned st'"
  shows "init_count st' c = (if c < next_conn st' then 1 else 0)"
proof (cases "ev = Connection \<and> c = next_conn st")
  case True
  have "sent st c = []" using assms(1) True by (simp add: wf_def)
  then show ?thesis using True assms(3)
    by (auto simp: init_count_def step_def on_connection_def accept_def send_def
             split: sum.splits if_splits)
next
  case False
  then have "init_count st' c = init_count st c"
    using init_count_step_old [OF assms(1), of c ev rt] assms(3) by auto
  moreover have "next_conn st' = (if ev = Connection then Suc (next_conn st) else next_conn st)"
    using next_conn_step [of rt st ev] assms(3) by simp
  ultimately show ?thesis using assms(2) False by auto
qed

lemma init_count_run_returned:
  assumes "wf st" and "\<forall>c. init_count st c = (if c < next_conn st then 1 else 0)"
    and "run rt st evs = Returned st'"
  shows "init_count st' c = (if c < next_conn st' then 1 else 0)"
  using assms
proof (induction evs arbitrary: st)
  case Nil
  then show ?case by simp
next
  case (Cons ev evs)
  from Cons.prems(3) obtain st1 where s: "step rt st ev = Returned st1"
    and r: "run rt st1 evs = Returned st'"
    by (cases "step rt st ev") simp_all
  have w: "wf st1" using wf_step [OF Cons.prems(1), of rt ev] s by simp
  have i: "\<forall>c. init_count st1 c = (if c < next_conn st1 then 1 else 0)"
    using init_count_step_returned [OF Cons.prems(1,2) s] by blast
  show ?case using Cons.IH [OF w i r] .
qed

lemma init_count_reachable:
  "run rt initial evs = Returned st \<Longrightarrow> init_count st c = (if c < next_conn st then 1 else 0)"
  by (rule init_count_run_returned [OF wf_initial]) (simp_all add: initial_def init_count_def)

lemma placements_card:
  assumes "finite (dom (gridState st))"
  shows "finite (dom (gridState (state_of (run rt st evs))))
         \<and> card (dom (gridState (state_of (run rt st evs))))
             = card (dom (gridState st)) + placements rt st evs"
  using assms
proof (induction evs arbitrary: st)
  case Nil
  then show ?case by simp
next
  case (Cons ev evs)
  let ?st' = "state_of (step rt st ev)"
  have s: "finite (dom (gridState ?st'))
           \<and> card (dom (gridState ?st'))
               = card (dom (gridState st)) + (if gridState ?st' \<noteq> gridState st then 1 else 0)"
  proof (cases rule: step_cases [of rt st ev])
    case same
    then show ?thesis using Cons.prems by simp
  next
    case (placed sender data key c u k)
    have "k \<notin> dom (gridState st)" using placed(4) by auto
    moreover have "gridState ?st' \<noteq> gridState st"
      using placed(4,6) by (metis option.distinct(1) place_simps(1) fun_upd_same)
    ultimately show ?thesis using placed(6) Cons.prems by simp
  qed
  show ?case
  proof (cases "step rt st ev")
    case (Returned st')
    then show ?thesis using Cons.IH [of st'] s by simp
  next
    case (Threw e st')
    then show ?thesis using s by simp
  qed
qed

section \<open>Requests and their fields\<close>

lemma truthy_iff_not_falsy: "truthy v \<longleftrightarrow> \<not> falsy v"
  by (cases v) (auto simp: falsy_def)

lemma colorCell_fields_colorCell:
  "colorCell_fields (colorCell k c u) =
     (if truthy k \<and> truthy c \<and> truthy u then Some (k, c, u) else None)"
  by (simp add: colorCell_fields_def colorCell_def)

lemma colorCell_not_null: "colorCell k c u \<noteq> JNull"
  by (simp add: colorCell_def)

lemma malformed_ignored:
  assumes "malformed m"
  shows "on_message rt st m = Returned st"
proof (cases m)
  case NotJSON
  then show ?thesis by (simp add: on_message_def)
next
  case (Parsed data)
  then have "colorCell_fields data = None" and "data \<noteq> JNull"
    using assms by (auto simp: malformed_def colorCell_fields_def)
  then show ?thesis using Parsed by (simp add: on_message_def)
qed

lemma ToString_string [simp]: "ToString rt (JString s) = Inr s"
  by (simp add: ToString_def)

lemma plain_string [simp]: "plain (JString s)"
  by (simp add: plain_def)

lemma stringify_update_plain:
  assumes "plain key" and "plain c" and "plain u"
  shows "JSON_stringify rt (CellUpdate key c u) = Inr (Text (CellUpdate key c u))"
  using assms by (simp add: plain_def)

lemma grid_within_empty [simp]: "grid_within d Map.empty"
  by (simp add: grid_within_def)

lemma wire_grid_empty [simp]: "wire_grid Map.empty = Map.empty"
  by (simp add: wire_grid_def)

lemma grid_within_upd:
  "grid_within d (g(k \<mapsto> occ)) \<longleftrightarrow>
     grid_within d (g(k := None)) \<and> depth (color occ) \<le> d \<and> depth (username occ) \<le> d"
  by (auto simp: grid_within_def split: if_splits)

lemma wire_grid_upd:
  "wire_grid (g(k \<mapsto> occ)) = (wire_grid g)(k \<mapsto> \<lparr>color = wire (color occ), username = wire (username occ)\<rparr>)"
  by (auto simp: wire_grid_def)

lemma zero_comma_zero_free: "''0,0'' \<notin> set Object_prototype_names"
  by (simp add: Object_prototype_names_def)

lemma connection_returns:
  assumes "grid_within (init_depth rt) (gridState st)"
  shows "step rt st Connection
           = Returned (send (next_conn st) (Text (Init (wire_grid (gridState st)))) (accept st))"
  using assms by (simp add: step_def on_connection_def accept_def)

lemma grid_plain_within: "grid_plain g \<Longrightarrow> grid_within d g"
  by (auto simp: grid_plain_def grid_within_def plain_def)

lemma grid_plain_wire: "grid_plain g \<Longrightarrow> wire_grid g = g"
proof
  fix k
  assume p: "grid_plain g"
  show "wire_grid g k = g k"
  proof (cases "g k")
    case None
    then show ?thesis by (simp add: wire_grid_def)
  next
    case (Some occ)
    then have "wire (color occ) = color occ" "wire (username occ) = username occ"
      using p by (auto simp: grid_plain_def plain_def)
    then show ?thesis using Some by (simp add: wire_grid_def)
  qed
qed

lemma grid_plain_upd:
  "grid_plain (g(k \<mapsto> occ)) \<longleftrightarrow> grid_plain (g(k := None)) \<and> plain (color occ) \<and> plain (username occ)"
  by (auto simp: grid_plain_def split: if_splits)

lemma grid_plain_empty [simp]: "grid_plain Map.empty"
  by (simp add: grid_plain_def)

lemmas eval_defs =
  step_def on_message_def colorCell_fields_colorCell grid_get_def Object_prototype_names_def
  on_connection_def accept_def send_def initial_def colorCell_not_null accepts_def Let_def
  example_runtime_def ToString_def grid_within_upd wire_grid_upd grid_plain_upd

section \<open>The properties\<close>

text \<open>
  C1. On the empty grid, with one connection open, the well-formed placement request
  with the string key \<^verbatim>\<open>toString\<close> is not accepted although the key is absent from the
  grid: the handler returns with the state as it was, the key still has no entry, and
  the connection has received its snapshot and nothing else. (For a key that names no
  inherited property, \<open>on_message_accepted\<close> and \<open>on_message_rejected\<close> give the two
  halves of the first-come-first-served rule.)
\<close>

theorem toString_request_on_empty_grid:
  "gridState initial ''toString'' = None
   \<and> colorCell_fields (colorCell (JString ''toString'') (JString ''red'') (JString ''alice''))
       = Some (JString ''toString'', JString ''red'', JString ''alice'')
   \<and> step rt (state_of (step rt initial Connection))
        (Message 0 (Parsed (colorCell (JString ''toString'') (JString ''red'') (JString ''alice''))))
       = Returned (state_of (step rt initial Connection))
   \<and> gridState (state_of (step rt initial Connection)) ''toString'' = None
   \<and> sent (state_of (step rt initial Connection)) 0 = [Text (Init Map.empty)]"
  by (simp add: step_def on_message_def colorCell_fields_colorCell grid_get_def
        Object_prototype_names_def on_connection_def accept_def send_def initial_def
        colorCell_not_null)

text \<open>
  C2. For every cell \<open>k\<close> and every run, from any state: at most one event accepts a
  placement for \<open>k\<close>. Once an event has accepted one, no later event of the run accepts
  another, and every later placement request for \<open>k\<close> is rejected, the handler returning
  with the state as it was. An entry of the grid keeps its occupant through every run:
  it is never changed and never removed.
\<close>

theorem first_placement_wins:
  "acceptances rt st evs k \<le> 1
   \<and> (accepts rt st ev k \<and> step rt st ev = Returned st' \<longrightarrow>
        acceptances rt st' evs k = 0
        \<and> (colorCell_fields data = Some (key, c, u) \<and> ToString rt key = Inr k \<longrightarrow>
             step rt (state_of (run rt st' evs)) (Message sender (Parsed data))
               = Returned (state_of (run rt st' evs))))
   \<and> (gridState st' k = Some occ \<longrightarrow> gridState (state_of (run rt st' evs)) k = Some occ)"
proof (intro conjI impI)
  show "acceptances rt st evs k \<le> 1" by (rule acceptances_le_1)
next
  assume a: "accepts rt st ev k \<and> step rt st ev = Returned st'"
  then have g: "gridState st' k \<noteq> None" by (auto simp: accepts_def)
  then show "acceptances rt st' evs k = 0" by (rule acceptances_zero)
  assume r: "colorCell_fields data = Some (key, c, u) \<and> ToString rt key = Inr k"
  from g obtain occ' where "gridState st' k = Some occ'" by auto
  then have "gridState (state_of (run rt st' evs)) k \<noteq> None"
    using run_keeps_entry [of st' k occ' rt evs] by simp
  then show "step rt (state_of (run rt st' evs)) (Message sender (Parsed data))
               = Returned (state_of (run rt st' evs))"
    using r on_message_rejected [of data key c u rt k "state_of (run rt st' evs)"]
    by (simp add: step_def)
next
  assume "gridState st' k = Some occ"
  then show "gridState (state_of (run rt st' evs)) k = Some occ" by (rule run_keeps_entry)
qed

theorem first_placement_wins_witness:
  "accepts example_runtime (state_of (step example_runtime initial Connection))
     (Message 0 (Parsed (colorCell (JString ''0,0'') (JString ''red'') (JString ''alice'')))) ''0,0''
   \<and> step example_runtime (state_of (step example_runtime initial Connection))
         (Message 0 (Parsed (colorCell (JString ''0,0'') (JString ''red'') (JString ''alice''))))
       = Returned (place example_runtime (state_of (step example_runtime initial Connection))
                     (JString ''0,0'') (JString ''red'') (JString ''alice'') ''0,0'')
   \<and> colorCell_fields (colorCell (JString ''0,0'') (JString ''blue'') (JString ''bob''))
       = Some (JString ''0,0'', JString ''blue'', JString ''bob'')
   \<and> ToString example_runtime (JString ''0,0'') = Inr ''0,0''
   \<and> gridState (place example_runtime (state_of (step example_runtime initial Connection))
                     (JString ''0,0'') (JString ''red'') (JString ''alice'') ''0,0'') ''0,0''
       = Some \<lparr>color = JString ''red'', username = JString ''alice''\<rparr>
   \<and> acceptances example_runtime
         (place example_runtime (state_of (step example_runtime initial Connection))
            (JString ''0,0'') (JString ''red'') (JString ''alice'') ''0,0'')
         [Connection] ''0,0'' = 0
   \<and> step example_runtime
         (state_of (run example_runtime
            (place example_runtime (state_of (step example_runtime initial Connection))
               (JString ''0,0'') (JString ''red'') (JString ''alice'') ''0,0'')
            [Connection]))
         (Message 1 (Parsed (colorCell (JString ''0,0'') (JString ''blue'') (JString ''bob''))))
       = Returned
           (state_of (run example_runtime
              (place example_runtime (state_of (step example_runtime initial Connection))
                 (JString ''0,0'') (JString ''red'') (JString ''alice'') ''0,0'')
              [Connection]))
   \<and> gridState
         (state_of (run example_runtime
            (place example_runtime (state_of (step example_runtime initial Connection))
               (JString ''0,0'') (JString ''red'') (JString ''alice'') ''0,0'')
            [Connection])) ''0,0''
       = Some \<lparr>color = JString ''red'', username = JString ''alice''\<rparr>"
proof -
  let ?rt = "example_runtime"
  let ?st = "state_of (step ?rt initial Connection)"
  let ?a = "colorCell (JString ''0,0'') (JString ''red'') (JString ''alice'')"
  let ?b = "colorCell (JString ''0,0'') (JString ''blue'') (JString ''bob'')"
  let ?st' = "place ?rt ?st (JString ''0,0'') (JString ''red'') (JString ''alice'') ''0,0''"
  have f: "colorCell_fields ?a = Some (JString ''0,0'', JString ''red'', JString ''alice'')"
    by (simp add: colorCell_fields_colorCell)
  have g: "gridState ?st ''0,0'' = None"
    by (simp add: step_def on_connection_def accept_def initial_def split: sum.splits)
  have n: "''0,0'' \<notin> set Object_prototype_names" by (simp add: Object_prototype_names_def)
  have h2: "step ?rt ?st (Message 0 (Parsed ?a)) = Returned ?st'"
    using on_message_accepted_returns [OF f _ g n stringify_update_plain, of ?rt "''alice''"]
    by (simp add: step_def)
  have h1: "accepts ?rt ?st (Message 0 (Parsed ?a)) ''0,0''"
    using g h2 by (simp add: accepts_def)
  have h3: "colorCell_fields ?b = Some (JString ''0,0'', JString ''blue'', JString ''bob'')"
    by (simp add: colorCell_fields_colorCell)
  have h4: "ToString ?rt (JString ''0,0'') = Inr ''0,0''" by simp
  have h5: "gridState ?st' ''0,0'' = Some \<lparr>color = JString ''red'', username = JString ''alice''\<rparr>"
    by simp
  show ?thesis
    using first_placement_wins [of ?rt ?st "[Connection]" "''0,0''" "Message 0 (Parsed ?a)" ?st'
        ?b "JString ''0,0''" "JString ''blue''" "JString ''bob''" 1
        "\<lparr>color = JString ''red'', username = JString ''alice''\<rparr>"]
      h1 h2 h3 h4 h5
    by (simp del: run.simps acceptances.simps)
qed

text \<open>
  C3, as stated, fails in two situations, shown here on the example runtime with one
  open connection. A request for \<^verbatim>\<open>0,0\<close> whose color is the number \<^verbatim>\<open>1e999\<close> is accepted,
  and the update the connection is sent carries the color \<^verbatim>\<open>null\<close>, not the color of the
  request. A request for \<^verbatim>\<open>1,1\<close> whose color is nested five deep, one level more than
  this runtime writes, is accepted, the grid is written, and \<^verbatim>\<open>JSON.stringify\<close> throws
  before the first send: the open connection is sent no update.
\<close>

theorem update_lost_or_altered:
  "accepts example_runtime (state_of (step example_runtime initial Connection))
     (Message 0 (Parsed (colorCell (JString ''0,0'') (JNumber Infinity) (JString ''alice''))))
     ''0,0''
   \<and> readyState (state_of (step example_runtime initial Connection)) 0 = OPEN
   \<and> sent (state_of (step example_runtime (state_of (step example_runtime initial Connection))
        (Message 0 (Parsed (colorCell (JString ''0,0'') (JNumber Infinity) (JString ''alice'')))))) 0
       = [Text (Init Map.empty), Text (CellUpdate (JString ''0,0'') JNull (JString ''alice''))]
   \<and> accepts example_runtime (state_of (step example_runtime initial Connection))
       (Message 0 (Parsed (colorCell (JString ''1,1'')
          (JArray [JArray [JArray [JArray [JArray []]]]]) (JString ''alice''))))
       ''1,1''
   \<and> step example_runtime (state_of (step example_runtime initial Connection))
        (Message 0 (Parsed (colorCell (JString ''1,1'')
          (JArray [JArray [JArray [JArray [JArray []]]]]) (JString ''alice''))))
       = Threw RangeError
           ((state_of (step example_runtime initial Connection))
              \<lparr>gridState := [''1,1'' \<mapsto> \<lparr>color = JArray [JArray [JArray [JArray [JArray []]]]],
                                           username = JString ''alice''\<rparr>]\<rparr>)
   \<and> sent (state_of (step example_runtime initial Connection)) 0 = [Text (Init Map.empty)]"
  by (simp add: eval_defs)

text \<open>
  C3, amended. In every state the process reaches, when a placement request with the
  fields \<open>key\<close>, \<open>c\<close>, \<open>u\<close> is accepted for the cell \<open>k\<close> and the three values are nested no
  deeper than \<^verbatim>\<open>JSON.stringify\<close> writes at line 79, every connection that is open at that
  moment is sent exactly one text, after what it was sent before: that of
  \<^verbatim>\<open>{ type: "cellUpdate", key, color: c, username: u }\<close>, in which an infinite number reads
  \<^verbatim>\<open>null\<close>. A connection that is not open is sent nothing. The connection is arbitrary,
  so the sender is served like any other. When the three values are plain (strings, for
  one), this holds on every runtime and the update carries them unchanged. The cell \<open>k\<close>
  is the key as a string, and it then holds the occupant \<open>c\<close>, \<open>u\<close>.
\<close>

theorem accepted_placement_broadcast:
  assumes "run rt initial evs = Returned st"
    and "colorCell_fields data = Some (key, c, u)"
    and "accepts rt st (Message sender (Parsed data)) k"
  shows "(depth key \<le> update_depth rt \<and> depth c \<le> update_depth rt \<and> depth u \<le> update_depth rt
          \<longrightarrow> sent (state_of (step rt st (Message sender (Parsed data)))) conn
               = (if readyState st conn = OPEN
                  then sent st conn @ [Text (CellUpdate (wire key) (wire c) (wire u))]
                  else sent st conn))
         \<and> (plain key \<and> plain c \<and> plain u
            \<longrightarrow> sent (state_of (step rt st (Message sender (Parsed data)))) conn
                 = (if readyState st conn = OPEN
                    then sent st conn @ [Text (CellUpdate key c u)]
                    else sent st conn))
         \<and> ToString rt key = Inr k
         \<and> gridState (state_of (step rt st (Message sender (Parsed data)))) k
             = Some \<lparr>color = c, username = u\<rparr>"
proof -
  have w: "wf st" using wf_reachable [OF assms(1)] .
  then have d: "distinct (clients st)"
    and o: "readyState st conn = OPEN \<Longrightarrow> conn \<in> set (clients st)"
    by (auto simp: wf_def)
  from accepts_message [OF assms(2,3)]
  have k: "ToString rt key = Inr k"
    and p: "state_of (step rt st (Message sender (Parsed data))) = place rt st key c u k"
    by simp_all
  have a: "sent (place rt st key c u k) conn
             = (if readyState st conn = OPEN
                then sent st conn @ [Text (CellUpdate (wire key) (wire c) (wire u))]
                else sent st conn)"
    if "depth key \<le> update_depth rt \<and> depth c \<le> update_depth rt \<and> depth u \<le> update_depth rt"
  proof -
    have "JSON_stringify rt (CellUpdate key c u)
            = Inr (Text (CellUpdate (wire key) (wire c) (wire u)))"
      using that by simp
    from place_sent [OF this d, of k conn] o show ?thesis by auto
  qed
  have b: "sent (place rt st key c u k) conn
             = (if readyState st conn = OPEN
                then sent st conn @ [Text (CellUpdate key c u)]
                else sent st conn)"
    if "plain key \<and> plain c \<and> plain u"
    using a that by (simp add: plain_def)
  show ?thesis using a b k by (simp add: p)
qed

theorem accepted_placement_broadcast_witness:
  "run example_runtime initial [Connection, Connection, Closing 1]
     = Returned (state_of (step example_runtime
          (state_of (run example_runtime initial [Connection, Connection])) (Closing 1)))
   \<and> colorCell_fields (colorCell (JString ''0,0'') (JString ''red'') (JString ''alice''))
       = Some (JString ''0,0'', JString ''red'', JString ''alice'')
   \<and> accepts example_runtime
         (state_of (step example_runtime
            (state_of (run example_runtime initial [Connection, Connection])) (Closing 1)))
         (Message 0 (Parsed (colorCell (JString ''0,0'') (JString ''red'') (JString ''alice''))))
         ''0,0''
   \<and> depth (JString ''0,0'') \<le> update_depth example_runtime
   \<and> depth (JString ''red'') \<le> update_depth example_runtime
   \<and> depth (JString ''alice'') \<le> update_depth example_runtime
   \<and> plain (JString ''0,0'') \<and> plain (JString ''red'') \<and> plain (JString ''alice'')
   \<and> readyState (state_of (step example_runtime
         (state_of (run example_runtime initial [Connection, Connection])) (Closing 1))) 0 = OPEN
   \<and> readyState (state_of (step example_runtime
         (state_of (run example_runtime initial [Connection, Connection])) (Closing 1))) 1 = CLOSING
   \<and> sent (state_of (step example_runtime
               (state_of (step example_runtime
                  (state_of (run example_runtime initial [Connection, Connection])) (Closing 1)))
               (Message 0 (Parsed (colorCell (JString ''0,0'') (JString ''red'') (JString ''alice'')))))) 0
       = [Text (Init Map.empty),
          Text (CellUpdate (JString ''0,0'') (JString ''red'') (JString ''alice''))]
   \<and> sent (state_of (step example_runtime
               (state_of (step example_runtime
                  (state_of (run example_runtime initial [Connection, Connection])) (Closing 1)))
               (Message 0 (Parsed (colorCell (JString ''0,0'') (JString ''red'') (JString ''alice'')))))) 1
       = [Text (Init Map.empty)]"
proof -
  let ?rt = "example_runtime"
  let ?st = "state_of (step ?rt (state_of (run ?rt initial [Connection, Connection])) (Closing 1))"
  let ?a = "colorCell (JString ''0,0'') (JString ''red'') (JString ''alice'')"
  have h1: "run ?rt initial [Connection, Connection, Closing 1] = Returned ?st"
    by (simp add: eval_defs)
  have h2: "colorCell_fields ?a = Some (JString ''0,0'', JString ''red'', JString ''alice'')"
    by (simp add: colorCell_fields_colorCell)
  have h3: "accepts ?rt ?st (Message 0 (Parsed ?a)) ''0,0''"
    by (simp add: eval_defs)
  have h4: "readyState ?st 0 = OPEN" "readyState ?st 1 = CLOSING"
    "sent ?st 0 = [Text (Init Map.empty)]" "sent ?st 1 = [Text (Init Map.empty)]"
    by (simp_all add: eval_defs)
  have h5: "wire (JString ''0,0'') = JString ''0,0''" "wire (JString ''red'') = JString ''red''"
    "wire (JString ''alice'') = JString ''alice''" by simp_all
  show ?thesis
    using accepted_placement_broadcast [OF h1 h2 h3, of 0]
      accepted_placement_broadcast [OF h1 h2 h3, of 1] h1 h2 h3 h4 h5
    by (simp del: run.simps)
qed




text \<open>
  C5. A malformed inbound message (text that is not JSON, or a \<^verbatim>\<open>colorCell\<close> message
  with one of \<^verbatim>\<open>key\<close>, \<^verbatim>\<open>color\<close>, \<^verbatim>\<open>username\<close> missing) is dropped: the handler returns
  and leaves the whole state as it was, so nothing is sent to any connection, the grid
  is unchanged, the sender's connection stays as it was, and the run goes on with the
  later events exactly as if the message had not come.
\<close>

theorem malformed_message_discarded:
  assumes "malformed m"
  shows "step rt st (Message sender m) = Returned st
         \<and> run rt st (Message sender m # evs) = run rt st evs"
  using malformed_ignored [OF assms] by (simp add: step_def)

theorem malformed_message_discarded_witness:
  "malformed (Parsed (JObject [(''type'', JString ''colorCell''), (''key'', JString ''0,0''),
                               (''username'', JString ''alice'')]))
   \<and> malformed NotJSON
   \<and> step example_runtime initial
        (Message 0 (Parsed (JObject [(''type'', JString ''colorCell''),
                                     (''key'', JString ''0,0''),
                                     (''username'', JString ''alice'')]))) = Returned initial
   \<and> step example_runtime initial (Message 0 NotJSON) = Returned initial"
  using malformed_message_discarded
          [of "Parsed (JObject [(''type'', JString ''colorCell''), (''key'', JString ''0,0''),
                                (''username'', JString ''alice'')])" example_runtime initial 0 "[]"]
    malformed_message_discarded [of NotJSON example_runtime initial 0 "[]"]
  by (simp add: malformed_def)

text \<open>
  C6. The scenario of the specification, from any state the process reaches with an
  empty grid (other connections may be there already). Connection A joins and is sent
  the snapshot of the empty grid. A's request for \<^verbatim>\<open>0,0\<close>, red, alice is handled without
  an exception, and the update is sent once to every connection then open, A among
  them, so A has now been sent the empty snapshot and the update. Connection B joins
  next and is sent the snapshot that maps \<^verbatim>\<open>0,0\<close> to red, alice. B's request for \<^verbatim>\<open>0,0\<close>,
  blue, bob is rejected: the handler returns with the state as it was, so nothing is
  sent and the grid still holds only red, alice at \<^verbatim>\<open>0,0\<close>.
\<close>

theorem first_come_first_served_scenario:
  assumes "run rt initial evs = Returned st0" and "gridState st0 = Map.empty"
  shows "let A = next_conn st0; B = Suc A;
             red = colorCell (JString ''0,0'') (JString ''red'') (JString ''alice'');
             blue = colorCell (JString ''0,0'') (JString ''blue'') (JString ''bob'');
             st1 = state_of (step rt st0 Connection);
             st2 = state_of (step rt st1 (Message A (Parsed red)));
             st3 = state_of (step rt st2 Connection)
         in sent st1 A = [Text (Init Map.empty)]
            \<and> step rt st1 (Message A (Parsed red)) = Returned st2
            \<and> (\<forall>conn. sent st2 conn =
                  (if readyState st1 conn = OPEN
                   then sent st1 conn
                        @ [Text (CellUpdate (JString ''0,0'') (JString ''red'') (JString ''alice''))]
                   else sent st1 conn))
            \<and> sent st2 A = [Text (Init Map.empty),
                             Text (CellUpdate (JString ''0,0'') (JString ''red'') (JString ''alice''))]
            \<and> sent st3 B = [Text (Init [''0,0'' \<mapsto> \<lparr>color = JString ''red'', username = JString ''alice''\<rparr>])]
            \<and> step rt st3 (Message B (Parsed blue)) = Returned st3
            \<and> gridState st3 = [''0,0'' \<mapsto> \<lparr>color = JString ''red'', username = JString ''alice''\<rparr>]"
proof -
  define A where "A = next_conn st0"
  define red where "red = colorCell (JString ''0,0'') (JString ''red'') (JString ''alice'')"
  define blue where "blue = colorCell (JString ''0,0'') (JString ''blue'') (JString ''bob'')"
  define st1 where "st1 = state_of (step rt st0 Connection)"
  define st2 where "st2 = state_of (step rt st1 (Message A (Parsed red)))"
  define st3 where "st3 = state_of (step rt st2 Connection)"
  let ?upd = "Text (CellUpdate (JString ''0,0'') (JString ''red'') (JString ''alice''))"
  let ?occ = "\<lparr>color = JString ''red'', username = JString ''alice''\<rparr>"
  have w0: "wf st0" using wf_reachable [OF assms(1)] .
  have w1: "wf st1" unfolding st1_def using wf_step [OF w0] .
  have c0: "step rt st0 Connection
              = Returned (send (next_conn st0) (Text (Init Map.empty)) (accept st0))"
    using connection_returns [of rt st0] assms(2) by simp
  have s1: "sent st1 A = [Text (Init Map.empty)]"
    using w0 by (simp add: st1_def A_def c0 wf_def accept_def send_def)
  have o1: "readyState st1 A = OPEN"
    by (simp add: st1_def A_def c0 accept_def)
  have g1: "gridState st1 = Map.empty"
    using assms(2) by (simp add: st1_def c0 accept_def)
  have n1: "next_conn st1 = Suc A" by (simp add: st1_def A_def next_conn_step)
  have f: "colorCell_fields red = Some (JString ''0,0'', JString ''red'', JString ''alice'')"
    by (simp add: red_def colorCell_fields_colorCell)
  have su: "JSON_stringify rt (CellUpdate (JString ''0,0'') (JString ''red'') (JString ''alice'')) = Inr ?upd"
    by (simp add: stringify_update_plain)
  have m2: "on_message rt st1 (Parsed red)
              = Returned (place rt st1 (JString ''0,0'') (JString ''red'') (JString ''alice'') ''0,0'')"
    using on_message_accepted_returns [OF f _ _ zero_comma_zero_free su, of st1 "''alice''"] g1
    by simp
  then have p2: "st2 = place rt st1 (JString ''0,0'') (JString ''red'') (JString ''alice'') ''0,0''"
    by (simp add: st2_def step_def)
  have r2: "step rt st1 (Message A (Parsed red)) = Returned st2"
    using m2 p2 by (simp add: step_def)
  have d1: "distinct (clients st1)"
    and c1: "\<And>conn. readyState st1 conn = OPEN \<Longrightarrow> conn \<in> set (clients st1)"
    using w1 by (auto simp: wf_def)
  have s2: "sent st2 conn = (if readyState st1 conn = OPEN then sent st1 conn @ [?upd] else sent st1 conn)"
    for conn
    using c1 [of conn] by (auto simp: p2 place_sent [OF su d1])
  have g2: "gridState st2 = [''0,0'' \<mapsto> ?occ]" by (simp add: p2 g1)
  have w2: "wf st2" unfolding st2_def using wf_step [OF w1] .
  have n2: "next_conn st2 = Suc A" by (simp add: p2 n1)
  have gw: "grid_within (init_depth rt) (gridState st2)"
    by (simp add: g2 grid_within_upd)
  have wg: "wire_grid (gridState st2) = [''0,0'' \<mapsto> ?occ]"
    by (simp add: g2 wire_grid_upd)
  have c2: "step rt st2 Connection
              = Returned (send (Suc A) (Text (Init [''0,0'' \<mapsto> ?occ])) (accept st2))"
    using connection_returns [OF gw] wg n2 by simp
  have s3: "sent st3 (Suc A) = [Text (Init [''0,0'' \<mapsto> ?occ])]"
    using w2 n2 by (simp add: st3_def c2 wf_def accept_def send_def)
  have g3: "gridState st3 = [''0,0'' \<mapsto> ?occ]"
    using g2 by (simp add: st3_def c2 accept_def)
  have fb: "colorCell_fields blue = Some (JString ''0,0'', JString ''blue'', JString ''bob'')"
    by (simp add: blue_def colorCell_fields_colorCell)
  have r4: "step rt st3 (Message (Suc A) (Parsed blue)) = Returned st3"
    using on_message_rejected [OF fb, of rt "''0,0''" st3] g3 by (simp add: step_def)
  show ?thesis
    unfolding Let_def A_def [symmetric] red_def [symmetric] blue_def [symmetric]
      st1_def [symmetric] st2_def [symmetric] st3_def [symmetric]
    using s1 r2 s2 o1 s3 r4 g3 by simp
qed

theorem first_come_first_served_scenario_witness:
  "run example_runtime initial [Connection]
     = Returned (state_of (step example_runtime initial Connection))
   \<and> gridState (state_of (step example_runtime initial Connection)) = Map.empty
   \<and> next_conn (state_of (step example_runtime initial Connection)) = 1
   \<and> sent (state_of (run example_runtime initial [Connection, Connection])) 1
       = [Text (Init Map.empty)]
   \<and> sent (state_of (run example_runtime initial
         [Connection, Connection,
          Message 1 (Parsed (colorCell (JString ''0,0'') (JString ''red'') (JString ''alice'')))])) 0
       = [Text (Init Map.empty),
          Text (CellUpdate (JString ''0,0'') (JString ''red'') (JString ''alice''))]
   \<and> sent (state_of (run example_runtime initial
         [Connection, Connection,
          Message 1 (Parsed (colorCell (JString ''0,0'') (JString ''red'') (JString ''alice'')))])) 1
       = [Text (Init Map.empty),
          Text (CellUpdate (JString ''0,0'') (JString ''red'') (JString ''alice''))]
   \<and> sent (state_of (run example_runtime initial
         [Connection, Connection,
          Message 1 (Parsed (colorCell (JString ''0,0'') (JString ''red'') (JString ''alice''))),
          Connection])) 2
       = [Text (Init [''0,0'' \<mapsto> \<lparr>color = JString ''red'', username = JString ''alice''\<rparr>])]
   \<and> run example_runtime initial
         [Connection, Connection,
          Message 1 (Parsed (colorCell (JString ''0,0'') (JString ''red'') (JString ''alice''))),
          Connection,
          Message 2 (Parsed (colorCell (JString ''0,0'') (JString ''blue'') (JString ''bob'')))]
       = run example_runtime initial
         [Connection, Connection,
          Message 1 (Parsed (colorCell (JString ''0,0'') (JString ''red'') (JString ''alice''))),
          Connection]"
proof -
  let ?rt = "example_runtime"
  let ?st0 = "state_of (step ?rt initial Connection)"
  have h1: "run ?rt initial [Connection] = Returned ?st0" by (simp add: eval_defs)
  have h2: "gridState ?st0 = Map.empty" by (simp add: eval_defs)
  show ?thesis
    using first_come_first_served_scenario [OF h1 h2] h1 h2
    by (simp add: eval_defs)
qed

text \<open>
  C8. On the empty grid, with two connections open, two well-formed placement requests
  for the key \<^verbatim>\<open>toString\<close>, red by alice and blue by bob, are both rejected, in either
  order of handling (no handler awaits, so requests that arrive together are handled
  one after the other): no event accepts a placement for the key, the run ends in the
  state it had before them, and each connection has been sent its snapshot and nothing
  else.
\<close>

theorem racing_toString_requests_both_rejected:
  "gridState (state_of (run example_runtime initial [Connection, Connection])) = Map.empty
   \<and> colorCell_fields (colorCell (JString ''toString'') (JString ''red'') (JString ''alice''))
       = Some (JString ''toString'', JString ''red'', JString ''alice'')
   \<and> colorCell_fields (colorCell (JString ''toString'') (JString ''blue'') (JString ''bob''))
       = Some (JString ''toString'', JString ''blue'', JString ''bob'')
   \<and> acceptances example_runtime (state_of (run example_runtime initial [Connection, Connection]))
         [Message 0 (Parsed (colorCell (JString ''toString'') (JString ''red'') (JString ''alice''))),
          Message 1 (Parsed (colorCell (JString ''toString'') (JString ''blue'') (JString ''bob'')))]
         ''toString'' = 0
   \<and> acceptances example_runtime (state_of (run example_runtime initial [Connection, Connection]))
         [Message 1 (Parsed (colorCell (JString ''toString'') (JString ''blue'') (JString ''bob''))),
          Message 0 (Parsed (colorCell (JString ''toString'') (JString ''red'') (JString ''alice'')))]
         ''toString'' = 0
   \<and> run example_runtime initial
         [Connection, Connection,
          Message 0 (Parsed (colorCell (JString ''toString'') (JString ''red'') (JString ''alice''))),
          Message 1 (Parsed (colorCell (JString ''toString'') (JString ''blue'') (JString ''bob'')))]
       = run example_runtime initial [Connection, Connection]
   \<and> run example_runtime initial
         [Connection, Connection,
          Message 1 (Parsed (colorCell (JString ''toString'') (JString ''blue'') (JString ''bob''))),
          Message 0 (Parsed (colorCell (JString ''toString'') (JString ''red'') (JString ''alice'')))]
       = run example_runtime initial [Connection, Connection]
   \<and> sent (state_of (run example_runtime initial [Connection, Connection])) 0 = [Text (Init Map.empty)]
   \<and> sent (state_of (run example_runtime initial [Connection, Connection])) 1 = [Text (Init Map.empty)]"
  by (simp add: eval_defs)

text \<open>
  C9. A placement request whose key names a property that a plain object inherits
  (\<^verbatim>\<open>toString\<close>, \<^verbatim>\<open>constructor\<close>, \<^verbatim>\<open>hasOwnProperty\<close>, \<^verbatim>\<open>__proto__\<close> and the other names
  of \<^verbatim>\<open>Object.prototype\<close>) is rejected in every state, the empty grid included: the
  handler returns with the state as it was, so nothing is inserted and nothing is sent.
  Along every run from the start such a key never gets an entry in the grid.
\<close>

theorem inherited_key_never_claimed:
  assumes "k \<in> set Object_prototype_names"
    and "colorCell_fields data = Some (key, c, u)"
    and "ToString rt key = Inr k"
  shows "step rt st (Message sender (Parsed data)) = Returned st
         \<and> gridState (state_of (run rt initial evs)) k = None"
proof -
  have "step rt st (Message sender (Parsed data)) = Returned st"
    using on_message_rejected [OF assms(2,3), of st] assms(1) by (simp add: step_def)
  moreover have "gridState (state_of (run rt initial evs)) k = None"
    using run_no_inherited [OF assms(1), of initial rt evs] by (simp add: initial_def)
  ultimately show ?thesis by simp
qed

theorem inherited_key_never_claimed_witness:
  "''toString'' \<in> set Object_prototype_names
   \<and> colorCell_fields (colorCell (JString ''toString'') (JString ''red'') (JString ''alice''))
       = Some (JString ''toString'', JString ''red'', JString ''alice'')
   \<and> ToString example_runtime (JString ''toString'') = Inr ''toString''
   \<and> step example_runtime initial
        (Message 0 (Parsed (colorCell (JString ''toString'') (JString ''red'') (JString ''alice''))))
       = Returned initial
   \<and> gridState (state_of (run example_runtime initial
        [Connection,
         Message 0 (Parsed (colorCell (JString ''toString'') (JString ''red'') (JString ''alice'')))]))
        ''toString'' = None"
proof -
  have h1: "''toString'' \<in> set Object_prototype_names"
    by (simp add: Object_prototype_names_def)
  have h2: "colorCell_fields (colorCell (JString ''toString'') (JString ''red'') (JString ''alice''))
       = Some (JString ''toString'', JString ''red'', JString ''alice'')"
    by (simp add: colorCell_fields_colorCell)
  have h3: "ToString example_runtime (JString ''toString'') = Inr ''toString''" by simp
  show ?thesis
    using inherited_key_never_claimed [OF h1 h2 h3, of initial 0
              "[Connection,
                Message 0 (Parsed (colorCell (JString ''toString'') (JString ''red'') (JString ''alice'')))]"]
      h1 h2 h3
    by (simp del: run.simps)
qed

text \<open>
  C10. A \<^verbatim>\<open>colorCell\<close> message that has all of \<^verbatim>\<open>key\<close>, \<^verbatim>\<open>color\<close> and \<^verbatim>\<open>username\<close>, one of
  them being the empty string or another falsy value (zero, false, null), is dropped:
  the handler returns with the state as it was, which is exactly what it does with a
  message that lacks a field.
\<close>

theorem falsy_field_dropped:
  assumes "read_prop data ''type'' = Some (JString ''colorCell'')"
    and "read_prop data ''key'' = Some kv"
    and "read_prop data ''color'' = Some cv"
    and "read_prop data ''username'' = Some uv"
    and "falsy kv \<or> falsy cv \<or> falsy uv"
    and "malformed m"
  shows "step rt st (Message sender (Parsed data)) = Returned st
         \<and> step rt st (Message sender (Parsed data)) = step rt st (Message sender m)"
proof -
  have "colorCell_fields data = None"
    using assms(2-5) by (auto simp: colorCell_fields_def truthy_iff_not_falsy)
  moreover have "data \<noteq> JNull" using assms(1) by auto
  ultimately have "on_message rt st (Parsed data) = Returned st"
    by (simp add: on_message_def)
  then show ?thesis using malformed_ignored [OF assms(6), of rt st] by (simp add: step_def)
qed

theorem falsy_field_dropped_witness:
  "read_prop (colorCell (JString ''0,0'') (JString '''') (JString ''alice'')) ''type''
     = Some (JString ''colorCell'')
   \<and> read_prop (colorCell (JString ''0,0'') (JString '''') (JString ''alice'')) ''key''
     = Some (JString ''0,0'')
   \<and> read_prop (colorCell (JString ''0,0'') (JString '''') (JString ''alice'')) ''color''
     = Some (JString '''')
   \<and> read_prop (colorCell (JString ''0,0'') (JString '''') (JString ''alice'')) ''username''
     = Some (JString ''alice'')
   \<and> falsy (JString '''')
   \<and> malformed (Parsed (JObject [(''type'', JString ''colorCell''), (''key'', JString ''0,0''),
                                 (''username'', JString ''alice'')]))
   \<and> step example_runtime initial
         (Message 0 (Parsed (colorCell (JString ''0,0'') (JString '''') (JString ''alice''))))
       = Returned initial"
  using falsy_field_dropped
          [of "colorCell (JString ''0,0'') (JString '''') (JString ''alice'')"
              "JString ''0,0''" "JString ''''" "JString ''alice''"
              "Parsed (JObject [(''type'', JString ''colorCell''), (''key'', JString ''0,0''),
                                (''username'', JString ''alice'')])"
              example_runtime initial 0]
  by (simp add: colorCell_def falsy_def malformed_def)

section \<open>Further properties of the handlers\<close>

text \<open>
  X1. The first-come-first-served rule where it holds. For a placement request whose key
  names no inherited property: when the cell has no entry, the handler writes the
  occupant under the key and runs the loop of lines 77 to 86 (the state is
  \<open>place rt st key c u k\<close>); when the cell has an entry, the handler returns with the
  state as it was. No other event changes the grid.
\<close>

theorem ordinary_key_first_come_first_served:
  assumes "colorCell_fields data = Some (key, c, u)"
    and "ToString rt key = Inr k"
    and "k \<notin> set Object_prototype_names"
  shows "(gridState st k = None \<longrightarrow>
            state_of (step rt st (Message sender (Parsed data))) = place rt st key c u k
            \<and> gridState (state_of (step rt st (Message sender (Parsed data))))
                = (gridState st)(k \<mapsto> \<lparr>color = c, username = u\<rparr>))
         \<and> (gridState st k \<noteq> None \<longrightarrow> step rt st (Message sender (Parsed data)) = Returned st)
         \<and> gridState (state_of (step rt st Connection)) = gridState st
         \<and> gridState (state_of (step rt st (Closing conn))) = gridState st
         \<and> gridState (state_of (step rt st (Close conn))) = gridState st"
proof (intro conjI impI)
  assume "gridState st k = None"
  then show p: "state_of (step rt st (Message sender (Parsed data))) = place rt st key c u k"
    using on_message_accepted [OF assms(1,2) _ assms(3), of st] by (simp add: step_def)
  show "gridState (state_of (step rt st (Message sender (Parsed data))))
          = (gridState st)(k \<mapsto> \<lparr>color = c, username = u\<rparr>)"
    by (simp add: p)
next
  assume "gridState st k \<noteq> None"
  then show "step rt st (Message sender (Parsed data)) = Returned st"
    using on_message_rejected [OF assms(1,2), of st] by (simp add: step_def)
qed (simp_all add: step_def on_connection_def accept_def split: sum.splits)

theorem ordinary_key_first_come_first_served_witness:
  "colorCell_fields (colorCell (JString ''3,4'') (JString ''red'') (JString ''alice''))
     = Some (JString ''3,4'', JString ''red'', JString ''alice'')
   \<and> ToString example_runtime (JString ''3,4'') = Inr ''3,4''
   \<and> ''3,4'' \<notin> set Object_prototype_names
   \<and> gridState initial ''3,4'' = None
   \<and> gridState (state_of (step example_runtime initial
         (Message 0 (Parsed (colorCell (JString ''3,4'') (JString ''red'') (JString ''alice''))))))
       = [''3,4'' \<mapsto> \<lparr>color = JString ''red'', username = JString ''alice''\<rparr>]
   \<and> gridState (place example_runtime initial (JString ''3,4'') (JString ''green'') (JString ''carol'') ''3,4'')
         ''3,4'' \<noteq> None
   \<and> step example_runtime
         (place example_runtime initial (JString ''3,4'') (JString ''green'') (JString ''carol'') ''3,4'')
         (Message 0 (Parsed (colorCell (JString ''3,4'') (JString ''red'') (JString ''alice''))))
       = Returned (place example_runtime initial (JString ''3,4'') (JString ''green'') (JString ''carol'') ''3,4'')"
proof -
  let ?rt = "example_runtime"
  let ?a = "colorCell (JString ''3,4'') (JString ''red'') (JString ''alice'')"
  have h1: "colorCell_fields ?a = Some (JString ''3,4'', JString ''red'', JString ''alice'')"
    by (simp add: colorCell_fields_colorCell)
  have h2: "ToString ?rt (JString ''3,4'') = Inr ''3,4''" by simp
  have h3: "''3,4'' \<notin> set Object_prototype_names" by (simp add: Object_prototype_names_def)
  have h4: "gridState initial ''3,4'' = None" by (simp add: initial_def)
  have h5: "gridState (place ?rt initial (JString ''3,4'') (JString ''green'') (JString ''carol'') ''3,4'') ''3,4'' \<noteq> None"
    by simp
  have h6: "gridState initial = Map.empty" by (simp add: initial_def)
  show ?thesis
    using ordinary_key_first_come_first_served [OF h1 h2 h3, of initial 0 0]
      ordinary_key_first_come_first_served [OF h1 h2 h3,
        of "place ?rt initial (JString ''3,4'') (JString ''green'') (JString ''carol'') ''3,4''" 0 0]
      h1 h2 h3 h4 h5 h6
    by simp
qed

text \<open>
  X2. A message whose JSON text is \<^verbatim>\<open>null\<close> makes the handler throw a TypeError at
  line 66, before any change of the state; nothing in the handler catches it.
\<close>

theorem null_message_throws:
  "step rt st (Message sender (Parsed JNull)) = Threw TypeError st"
  by (simp add: step_def on_message_def)

text \<open>
  X3. A placement request that is accepted and sent on, and whose \<^verbatim>\<open>username\<close> cannot be
  converted to a string (an object with an own property \<^verbatim>\<open>toString\<close>), throws at the log
  line 88, after the grid was written and the update was sent.
\<close>

theorem unprintable_username_throws_after_broadcast:
  assumes "colorCell_fields data = Some (key, c, u)"
    and "ToString rt key = Inr k"
    and "gridState st k = None" and "k \<notin> set Object_prototype_names"
    and "JSON_stringify rt (CellUpdate key c u) = Inr t"
    and "ToString rt u = Inl e"
  shows "step rt st (Message sender (Parsed data)) = Threw e (place rt st key c u k)"
proof -
  let ?st1 = "st\<lparr>gridState := (gridState st)(k \<mapsto> \<lparr>color = c, username = u\<rparr>)\<rparr>"
  have "broadcast rt (CellUpdate key c u) (clients ?st1) ?st1 = Returned (place rt st key c u k)"
    using broadcast_returns [OF assms(5), of "clients ?st1" ?st1] by (simp add: place_def)
  then show ?thesis
    using assms(1-4,6) colorCell_fields_not_null [OF assms(1)]
    by (simp add: step_def on_message_def cell_truthy_iff Let_def)
qed

theorem unprintable_username_throws_after_broadcast_witness:
  "colorCell_fields (colorCell (JString ''3,4'') (JString ''red'') (JObject [(''toString'', JNull)]))
     = Some (JString ''3,4'', JString ''red'', JObject [(''toString'', JNull)])
   \<and> ToString example_runtime (JString ''3,4'') = Inr ''3,4''
   \<and> gridState initial ''3,4'' = None
   \<and> ''3,4'' \<notin> set Object_prototype_names
   \<and> JSON_stringify example_runtime
         (CellUpdate (JString ''3,4'') (JString ''red'') (JObject [(''toString'', JNull)]))
       = Inr (Text (CellUpdate (JString ''3,4'') (JString ''red'') (JObject [(''toString'', JNull)])))
   \<and> ToString example_runtime (JObject [(''toString'', JNull)]) = Inl TypeError
   \<and> step example_runtime initial
         (Message 0 (Parsed (colorCell (JString ''3,4'') (JString ''red'') (JObject [(''toString'', JNull)]))))
       = Threw TypeError
           (place example_runtime initial (JString ''3,4'') (JString ''red'')
              (JObject [(''toString'', JNull)]) ''3,4'')"
proof -
  let ?rt = "example_runtime"
  let ?u = "JObject [(''toString'', JNull)]"
  let ?a = "colorCell (JString ''3,4'') (JString ''red'') ?u"
  have h1: "colorCell_fields ?a = Some (JString ''3,4'', JString ''red'', ?u)"
    by (simp add: colorCell_fields_colorCell)
  have h2: "ToString ?rt (JString ''3,4'') = Inr ''3,4''" by simp
  have h3: "gridState initial ''3,4'' = None" by (simp add: initial_def)
  have h4: "''3,4'' \<notin> set Object_prototype_names" by (simp add: Object_prototype_names_def)
  have h5: "JSON_stringify ?rt (CellUpdate (JString ''3,4'') (JString ''red'') ?u)
              = Inr (Text (CellUpdate (JString ''3,4'') (JString ''red'') ?u))"
    by (simp add: example_runtime_def)
  have h6: "ToString ?rt ?u = Inl TypeError" by (simp add: ToString_def)
  show ?thesis
    using unprintable_username_throws_after_broadcast [OF h1 h2 h3 h4 h5 h6, of 0] h1 h2 h3 h4 h5 h6
    by simp
qed

text \<open>
  X4. A placement request whose \<^verbatim>\<open>key\<close> cannot be converted to a string (an object with
  an own property \<^verbatim>\<open>toString\<close>, an array that holds one, an array nested too deep) throws
  at line 68, with the state as it was.
\<close>

theorem unprintable_key_throws:
  assumes "colorCell_fields data = Some (key, c, u)"
    and "ToString rt key = Inl e"
  shows "step rt st (Message sender (Parsed data)) = Threw e st"
  using assms colorCell_fields_not_null [OF assms(1)]
  by (simp add: step_def on_message_def)

theorem unprintable_key_throws_witness:
  "colorCell_fields (colorCell (JArray [JObject [(''toString'', JNull)]]) (JString ''red'') (JString ''alice''))
     = Some (JArray [JObject [(''toString'', JNull)]], JString ''red'', JString ''alice'')
   \<and> ToString example_runtime (JArray [JObject [(''toString'', JNull)]]) = Inl TypeError
   \<and> step example_runtime initial
         (Message 0 (Parsed (colorCell (JArray [JObject [(''toString'', JNull)]])
                               (JString ''red'') (JString ''alice''))))
       = Threw TypeError initial
   \<and> colorCell_fields (colorCell (JArray [JArray [JArray [JArray [JArray []]]]])
         (JString ''red'') (JString ''alice''))
     = Some (JArray [JArray [JArray [JArray [JArray []]]]], JString ''red'', JString ''alice'')
   \<and> ToString example_runtime (JArray [JArray [JArray [JArray [JArray []]]]]) = Inl RangeError
   \<and> step example_runtime initial
         (Message 0 (Parsed (colorCell (JArray [JArray [JArray [JArray [JArray []]]]])
                               (JString ''red'') (JString ''alice''))))
       = Threw RangeError initial"
proof -
  let ?rt = "example_runtime"
  let ?k = "JArray [JObject [(''toString'', JNull)]]"
  let ?a = "colorCell ?k (JString ''red'') (JString ''alice'')"
  let ?k2 = "JArray [JArray [JArray [JArray [JArray []]]]]"
  let ?a2 = "colorCell ?k2 (JString ''red'') (JString ''alice'')"
  have h1: "colorCell_fields ?a = Some (?k, JString ''red'', JString ''alice'')"
    by (simp add: colorCell_fields_colorCell)
  have h2: "ToString ?rt ?k = Inl TypeError"
    by (simp add: ToString_def example_runtime_def eval_nat_numeral)
  have h3: "colorCell_fields ?a2 = Some (?k2, JString ''red'', JString ''alice'')"
    by (simp add: colorCell_fields_colorCell)
  have h4: "ToString ?rt ?k2 = Inl RangeError"
    by (simp add: ToString_def example_runtime_def eval_nat_numeral)
  show ?thesis
    using unprintable_key_throws [OF h1 h2, of initial 0]
      unprintable_key_throws [OF h3 h4, of initial 0] h1 h2 h3 h4 by simp
qed

text \<open>
  X5. Two placement requests for one cell that has no entry and names no inherited
  property, handled one after the other: if the handler of the first returns, the first
  is accepted and the second is rejected, the grid holds and keeps the occupant of the
  first, and exactly one event of the run accepts a placement for the cell. The two
  requests are arbitrary, so this holds for either order.
\<close>

theorem racing_requests_one_wins:
  assumes "colorCell_fields d1 = Some (key1, c1, u1)"
    and "colorCell_fields d2 = Some (key2, c2, u2)"
    and "ToString rt key1 = Inr k" and "ToString rt key2 = Inr k"
    and "gridState st k = None" and "k \<notin> set Object_prototype_names"
    and "step rt st (Message a (Parsed d1)) = Returned st1"
  shows "accepts rt st (Message a (Parsed d1)) k
         \<and> step rt st1 (Message b (Parsed d2)) = Returned st1
         \<and> gridState st1 k = Some \<lparr>color = c1, username = u1\<rparr>
         \<and> acceptances rt st (Message a (Parsed d1) # Message b (Parsed d2) # rest) k = 1
         \<and> gridState (state_of (run rt st (Message a (Parsed d1) # Message b (Parsed d2) # rest))) k
             = Some \<lparr>color = c1, username = u1\<rparr>"
proof -
  let ?m1 = "Message a (Parsed d1)" and ?m2 = "Message b (Parsed d2)"
  let ?occ = "\<lparr>color = c1, username = u1\<rparr>"
  have p: "st1 = place rt st key1 c1 u1 k"
    using on_message_accepted [OF assms(1,3,5,6)] assms(7) by (simp add: step_def)
  then have g1: "gridState st1 k = Some ?occ" by simp
  have acc: "accepts rt st ?m1 k" using assms(5,7) g1 by (simp add: accepts_def)
  have rej: "step rt st1 ?m2 = Returned st1"
    using on_message_rejected [OF assms(2,4), of st1] g1 by (simp add: step_def)
  have run1: "run rt st (?m1 # ?m2 # rest) = run rt st1 rest"
    using assms(7) rej by simp
  have n: "acceptances rt st (?m1 # ?m2 # rest) k = 1"
    using acc assms(7) acceptances_zero [of st1 k rt "?m2 # rest"] g1 by simp
  have gf: "gridState (state_of (run rt st1 rest)) k = Some ?occ"
    using run_keeps_entry [OF g1] .
  show ?thesis using acc rej g1 n gf run1 by simp
qed

theorem racing_requests_one_wins_witness:
  "colorCell_fields (colorCell (JString ''5,5'') (JString ''red'') (JString ''alice''))
       = Some (JString ''5,5'', JString ''red'', JString ''alice'')
   \<and> colorCell_fields (colorCell (JString ''5,5'') (JString ''blue'') (JString ''bob''))
       = Some (JString ''5,5'', JString ''blue'', JString ''bob'')
   \<and> ToString example_runtime (JString ''5,5'') = Inr ''5,5''
   \<and> gridState initial ''5,5'' = None
   \<and> ''5,5'' \<notin> set Object_prototype_names
   \<and> step example_runtime initial
         (Message 0 (Parsed (colorCell (JString ''5,5'') (JString ''red'') (JString ''alice''))))
       = Returned (place example_runtime initial
                     (JString ''5,5'') (JString ''red'') (JString ''alice'') ''5,5'')
   \<and> step example_runtime initial
         (Message 1 (Parsed (colorCell (JString ''5,5'') (JString ''blue'') (JString ''bob''))))
       = Returned (place example_runtime initial
                     (JString ''5,5'') (JString ''blue'') (JString ''bob'') ''5,5'')
   \<and> acceptances example_runtime initial
         [Message 0 (Parsed (colorCell (JString ''5,5'') (JString ''red'') (JString ''alice''))),
          Message 1 (Parsed (colorCell (JString ''5,5'') (JString ''blue'') (JString ''bob'')))]
         ''5,5'' = 1
   \<and> gridState (state_of (run example_runtime initial
         [Message 0 (Parsed (colorCell (JString ''5,5'') (JString ''red'') (JString ''alice''))),
          Message 1 (Parsed (colorCell (JString ''5,5'') (JString ''blue'') (JString ''bob'')))]))
         ''5,5'' = Some \<lparr>color = JString ''red'', username = JString ''alice''\<rparr>
   \<and> acceptances example_runtime initial
         [Message 1 (Parsed (colorCell (JString ''5,5'') (JString ''blue'') (JString ''bob''))),
          Message 0 (Parsed (colorCell (JString ''5,5'') (JString ''red'') (JString ''alice'')))]
         ''5,5'' = 1
   \<and> gridState (state_of (run example_runtime initial
         [Message 1 (Parsed (colorCell (JString ''5,5'') (JString ''blue'') (JString ''bob''))),
          Message 0 (Parsed (colorCell (JString ''5,5'') (JString ''red'') (JString ''alice'')))]))
         ''5,5'' = Some \<lparr>color = JString ''blue'', username = JString ''bob''\<rparr>"
proof -
  let ?rt = "example_runtime"
  let ?red = "colorCell (JString ''5,5'') (JString ''red'') (JString ''alice'')"
  let ?blue = "colorCell (JString ''5,5'') (JString ''blue'') (JString ''bob'')"
  have h2: "colorCell_fields ?red = Some (JString ''5,5'', JString ''red'', JString ''alice'')"
    by (simp add: colorCell_fields_colorCell)
  have h3: "colorCell_fields ?blue = Some (JString ''5,5'', JString ''blue'', JString ''bob'')"
    by (simp add: colorCell_fields_colorCell)
  have h4: "ToString ?rt (JString ''5,5'') = Inr ''5,5''" by simp
  have h5: "gridState initial ''5,5'' = None" by (simp add: initial_def)
  have h6: "''5,5'' \<notin> set Object_prototype_names" by (simp add: Object_prototype_names_def)
  have h7: "step ?rt initial (Message 0 (Parsed ?red))
              = Returned (place ?rt initial (JString ''5,5'') (JString ''red'') (JString ''alice'') ''5,5'')"
    using on_message_accepted_returns [OF h2 h4 h5 h6 stringify_update_plain, of "''alice''"]
    by (simp add: step_def)
  have h8: "step ?rt initial (Message 1 (Parsed ?blue))
              = Returned (place ?rt initial (JString ''5,5'') (JString ''blue'') (JString ''bob'') ''5,5'')"
    using on_message_accepted_returns [OF h3 h4 h5 h6 stringify_update_plain, of "''bob''"]
    by (simp add: step_def)
  show ?thesis
    using racing_requests_one_wins [OF h2 h3 h4 h4 h5 h6 h7, of 1 "[]"]
      racing_requests_one_wins [OF h3 h2 h4 h4 h5 h6 h8, of 0 "[]"]
      h2 h3 h4 h5 h6 h7 h8
    by (simp del: run.simps acceptances.simps)
qed

text \<open>
  X6. A placement request that is accepted while a connection is open, and one of whose
  values is nested deeper than \<^verbatim>\<open>JSON.stringify\<close> writes at line 79, throws a RangeError
  after the grid was written and before anything is sent.
\<close>

theorem unwritable_update_throws_before_sending:
  assumes "colorCell_fields data = Some (key, c, u)"
    and "ToString rt key = Inr k"
    and "gridState st k = None" and "k \<notin> set Object_prototype_names"
    and "update_depth rt < depth key \<or> update_depth rt < depth c \<or> update_depth rt < depth u"
    and "conn \<in> set (clients st)" and "readyState st conn = OPEN"
  shows "step rt st (Message sender (Parsed data))
           = Threw RangeError (st\<lparr>gridState := (gridState st)(k \<mapsto> \<lparr>color = c, username = u\<rparr>)\<rparr>)"
proof -
  let ?st1 = "st\<lparr>gridState := (gridState st)(k \<mapsto> \<lparr>color = c, username = u\<rparr>)\<rparr>"
  have s: "JSON_stringify rt (CellUpdate key c u) = Inl RangeError"
    using assms(5) by auto
  have "broadcast rt (CellUpdate key c u) (clients ?st1) ?st1 = Threw RangeError ?st1"
    using broadcast_throws [OF s, of "clients ?st1" ?st1] assms(6,7) by auto
  then show ?thesis
    using assms(1-4) colorCell_fields_not_null [OF assms(1)]
    by (simp add: step_def on_message_def cell_truthy_iff Let_def)
qed

theorem unwritable_update_throws_before_sending_witness:
  "colorCell_fields (colorCell (JString ''1,1'') (JArray [JArray [JArray [JArray [JArray []]]]])
         (JString ''alice''))
     = Some (JString ''1,1'', JArray [JArray [JArray [JArray [JArray []]]]], JString ''alice'')
   \<and> ToString example_runtime (JString ''1,1'') = Inr ''1,1''
   \<and> gridState (state_of (step example_runtime initial Connection)) ''1,1'' = None
   \<and> ''1,1'' \<notin> set Object_prototype_names
   \<and> update_depth example_runtime < depth (JArray [JArray [JArray [JArray [JArray []]]]])
   \<and> 0 \<in> set (clients (state_of (step example_runtime initial Connection)))
   \<and> readyState (state_of (step example_runtime initial Connection)) 0 = OPEN
   \<and> step example_runtime (state_of (step example_runtime initial Connection))
        (Message 0 (Parsed (colorCell (JString ''1,1'')
          (JArray [JArray [JArray [JArray [JArray []]]]]) (JString ''alice''))))
       = Threw RangeError
           ((state_of (step example_runtime initial Connection))
              \<lparr>gridState := [''1,1'' \<mapsto> \<lparr>color = JArray [JArray [JArray [JArray [JArray []]]]],
                                           username = JString ''alice''\<rparr>]\<rparr>)"
proof -
  let ?rt = "example_runtime"
  let ?st = "state_of (step ?rt initial Connection)"
  let ?c = "JArray [JArray [JArray [JArray [JArray []]]]]"
  have h1: "colorCell_fields (colorCell (JString ''1,1'') ?c (JString ''alice''))
              = Some (JString ''1,1'', ?c, JString ''alice'')"
    by (simp add: colorCell_fields_colorCell)
  have h2: "ToString ?rt (JString ''1,1'') = Inr ''1,1''" by simp
  have h3: "gridState ?st ''1,1'' = None" by (simp add: eval_defs)
  have h4: "''1,1'' \<notin> set Object_prototype_names" by (simp add: Object_prototype_names_def)
  have h5: "update_depth ?rt < depth ?c" by (simp add: example_runtime_def)
  have h6: "0 \<in> set (clients ?st)" "readyState ?st 0 = OPEN" by (simp_all add: eval_defs)
  have h7: "gridState ?st = Map.empty" by (simp add: eval_defs)
  show ?thesis
    using unwritable_update_throws_before_sending [OF h1 h2 h3 h4 _ h6, of 0] h1 h2 h3 h4 h5 h6 h7
    by simp
qed

text \<open>
  X7. When a value in the grid is nested deeper than \<^verbatim>\<open>JSON.stringify\<close> writes at line 50,
  the \<^verbatim>\<open>connection\<close> handler throws a RangeError: the new connection is open and is sent
  nothing.
\<close>

theorem unwritable_snapshot_throws:
  assumes "\<not> grid_within (init_depth rt) (gridState st)"
  shows "step rt st Connection = Threw RangeError (accept st)
         \<and> sent (accept st) = sent st
         \<and> readyState (accept st) (next_conn st) = OPEN"
  using assms by (simp add: step_def on_connection_def accept_def)

theorem unwritable_snapshot_throws_witness:
  "\<not> grid_within (init_depth example_runtime)
        [''1,1'' \<mapsto> \<lparr>color = JArray [JArray [JArray []]], username = JString ''alice''\<rparr>]
   \<and> step example_runtime
        (initial\<lparr>gridState := [''1,1'' \<mapsto> \<lparr>color = JArray [JArray [JArray []]],
                                              username = JString ''alice''\<rparr>]\<rparr>) Connection
       = Threw RangeError
           (accept (initial\<lparr>gridState := [''1,1'' \<mapsto> \<lparr>color = JArray [JArray [JArray []]],
                                                       username = JString ''alice''\<rparr>]\<rparr>))"
proof -
  let ?g = "[''1,1'' \<mapsto> \<lparr>color = JArray [JArray [JArray []]], username = JString ''alice''\<rparr>]"
  have h: "\<not> grid_within (init_depth example_runtime) (gridState (initial\<lparr>gridState := ?g\<rparr>))"
    by (simp add: grid_within_upd example_runtime_def)
  show ?thesis using unwritable_snapshot_throws [OF h] h by simp
qed

end
